theory Spec2Isabelle
  imports Complex_Main
begin

section \<open>JavaScript values of the option objects\<close>

text \<open>
  The option objects of \<^verbatim>\<open>attorney.ts\<close> are plain JavaScript objects whose keys are
  optional.  The code distinguishes a key that is absent (\<^verbatim>\<open>"k" in o\<close> is false) from a
  key that is present and holds \<^verbatim>\<open>undefined\<close>; reading either gives \<^verbatim>\<open>undefined\<close>.
  A slot of an object is therefore one of three things.  The values are typed as the
  TypeScript interfaces type them; numbers are the integer-valued numbers (arithmetic
  on them is exact), so fractions, NaN and the infinities are outside this model, and
  so is the rounding of numbers beyond \<^verbatim>\<open>Number.MAX_SAFE_INTEGER\<close>.
\<close>

datatype 'a slot = Absent | Undefined | Val 'a

text \<open>\<^verbatim>\<open>"k" in o\<close>\<close>

definition has :: "'a slot \<Rightarrow> bool" where
  "has p = (p \<noteq> Absent)"

text \<open>\<^verbatim>\<open>o.k\<close>: the value read from a slot; an absent key reads as \<^verbatim>\<open>undefined\<close>.\<close>

definition get :: "'a slot \<Rightarrow> 'a slot" where
  "get p = (case p of Absent \<Rightarrow> Undefined | Undefined \<Rightarrow> Undefined | Val v \<Rightarrow> Val v)"

text \<open>Truthiness (\<^verbatim>\<open>!!v\<close>) of a number, a boolean, a string and a number-or-null.\<close>

definition truthy_num :: "int slot \<Rightarrow> bool" where
  "truthy_num p = (case p of Val n \<Rightarrow> n \<noteq> 0 | _ \<Rightarrow> False)"

definition truthy_bool :: "bool slot \<Rightarrow> bool" where
  "truthy_bool p = (case p of Val b \<Rightarrow> b | _ \<Rightarrow> False)"

definition truthy_str :: "string slot \<Rightarrow> bool" where
  "truthy_str p = (case p of Val s \<Rightarrow> s \<noteq> [] | _ \<Rightarrow> False)"

definition truthy_num_null :: "int option slot \<Rightarrow> bool" where
  "truthy_num_null p = (case p of Val (Some n) \<Rightarrow> n \<noteq> 0 | _ \<Rightarrow> False)"

text \<open>\<^verbatim>\<open>a || b\<close> on values already read.\<close>

definition or_num :: "int slot \<Rightarrow> int slot \<Rightarrow> int slot" where
  "or_num a b = (if truthy_num a then a else b)"

definition or_bool :: "bool slot \<Rightarrow> bool slot \<Rightarrow> bool slot" where
  "or_bool a b = (if truthy_bool a then a else b)"

text \<open>\<^verbatim>\<open>Number.isInteger(v)\<close>: false for \<^verbatim>\<open>undefined\<close>.\<close>

definition Number_isInteger :: "int slot \<Rightarrow> bool" where
  "Number_isInteger p = (case p of Val n \<Rightarrow> True | _ \<Rightarrow> False)"

text \<open>\<^verbatim>\<open>v >= k\<close> and \<^verbatim>\<open>v > k\<close>; a comparison with \<^verbatim>\<open>undefined\<close> is false.\<close>

definition num_ge :: "int slot \<Rightarrow> int \<Rightarrow> bool" where
  "num_ge p k = (case p of Val n \<Rightarrow> n \<ge> k | _ \<Rightarrow> False)"

definition num_gt :: "int slot \<Rightarrow> int \<Rightarrow> bool" where
  "num_gt p k = (case p of Val n \<Rightarrow> n > k | _ \<Rightarrow> False)"

text \<open>The decimal digits of an integer.\<close>

definition digit_char :: "nat \<Rightarrow> char" where
  "digit_char d = ''0123456789'' ! d"

fun decimal_of_nat :: "nat \<Rightarrow> string" where
  "decimal_of_nat n =
     (if 10 \<le> n then decimal_of_nat (n div 10) else []) @ [digit_char (n mod 10)]"

definition decimal :: "int \<Rightarrow> string" where
  "decimal i = (if 0 \<le> i then decimal_of_nat (nat i) else CHR ''-'' # decimal_of_nat (nat (- i)))"

text \<open>\<^verbatim>\<open>Number.MAX_SAFE_INTEGER\<close>\<close>

definition MAX_SAFE_INTEGER :: int where
  "MAX_SAFE_INTEGER = 2 ^ 53 - 1"

text \<open>
  The text of a number, as a template literal or \<^verbatim>\<open>"" + n\<close> prints it.  For a safe
  integer that is its decimal digits.  Beyond the safe integers JavaScript prints the
  shortest digits that identify the number, filled up with zeros or, from
  \<^verbatim>\<open>1e+21\<close> on, with an exponent; that text is not modelled and is left unspecified.
\<close>

definition Number_toString :: "int \<Rightarrow> string" where
  "Number_toString n = (if \<bar>n\<bar> \<le> MAX_SAFE_INTEGER then decimal n else undefined)"

text \<open>\<^verbatim>\<open>`${v}`\<close> for a slot typed as a number.\<close>

definition template_num :: "int slot \<Rightarrow> string" where
  "template_num p = (case p of Val n \<Rightarrow> Number_toString n | _ \<Rightarrow> ''undefined'')"

section \<open>The option objects\<close>

text \<open>
  \<^verbatim>\<open>startAfter?: number | string | Date | null\<close>.  A \<^verbatim>\<open>Date\<close> is represented by what
  \<^verbatim>\<open>toISOString()\<close> returns for it; \<open>None\<close> is an invalid date, for which
  \<^verbatim>\<open>toISOString()\<close> throws a \<^verbatim>\<open>RangeError\<close>.
\<close>

datatype start_after = SANum int | SAStr string | SADate "string option" | SANull

text \<open>
  \<^verbatim>\<open>SendOptions\<close>: \<^verbatim>\<open>JobOptions\<close> together with the expiration, retention, retry
  and completion options of pg-boss, the two keys \<^verbatim>\<open>expireIn\<close> and \<^verbatim>\<open>keepUntil\<close> that the
  resolver writes, and the key \<^verbatim>\<open>singletonOffset\<close> that \<^verbatim>\<open>createJob\<close> tests for.
  In \<open>singletonSeconds\<close> the value \<open>None\<close> is \<^verbatim>\<open>null\<close>.
\<close>

record options =
  priority :: "int slot"
  startAfter :: "start_after slot"
  singletonKey :: "string slot"
  useSingletonQueue :: "bool slot"
  singletonSeconds :: "int option slot"
  singletonMinutes :: "int slot"
  singletonHours :: "int slot"
  singletonNextSlot :: "bool slot"
  singletonOffset :: "int slot"
  expireInSeconds :: "int slot"
  expireInMinutes :: "int slot"
  expireInHours :: "int slot"
  expireIn :: "string slot"
  retentionSeconds :: "int slot"
  retentionMinutes :: "int slot"
  retentionHours :: "int slot"
  retentionDays :: "int slot"
  keepUntil :: "string slot"
  retryLimit :: "int slot"
  retryDelay :: "int slot"
  retryBackoff :: "bool slot"
  onComplete :: "bool slot"

text \<open>The object \<^verbatim>\<open>{}\<close>.\<close>

definition empty_options :: options where
  "empty_options =
     \<lparr> priority = Absent, startAfter = Absent, singletonKey = Absent,
       useSingletonQueue = Absent, singletonSeconds = Absent, singletonMinutes = Absent,
       singletonHours = Absent, singletonNextSlot = Absent, singletonOffset = Absent,
       expireInSeconds = Absent, expireInMinutes = Absent, expireInHours = Absent,
       expireIn = Absent, retentionSeconds = Absent, retentionMinutes = Absent,
       retentionHours = Absent, retentionDays = Absent, keepUntil = Absent,
       retryLimit = Absent, retryDelay = Absent, retryBackoff = Absent,
       onComplete = Absent \<rparr>"

text \<open>
  The queue configuration handed to the resolver as \<^verbatim>\<open>defaults\<close>
  (\<^verbatim>\<open>ConstructorOptionsUpdated\<close>): the keys that the code reads from it.
\<close>

record defaults =
  d_retryDelay :: "int slot"
  d_retryLimit :: "int slot"
  d_retryBackoff :: "bool slot"
  d_expireIn :: "string slot"
  d_keepUntil :: "string slot"
  d_onComplete :: "bool slot"
  d_archiveSeconds :: "int slot"

text \<open>A configuration that sets none of these keys, such as \<^verbatim>\<open>{ schema: "pgboss" }\<close>.\<close>

definition empty_defaults :: defaults where
  "empty_defaults =
     \<lparr> d_retryDelay = Absent, d_retryLimit = Absent,
       d_retryBackoff = Absent, d_expireIn = Absent, d_keepUntil = Absent,
       d_onComplete = Absent, d_archiveSeconds = Absent \<rparr>"

section \<open>Errors, warnings and the state of the process\<close>

text \<open>
  \<^verbatim>\<open>assert\<close> throws an \<^verbatim>\<open>AssertionError\<close> with the given message, \<^verbatim>\<open>throw new Error\<close>
  an \<^verbatim>\<open>Error\<close>; these are the validation errors of the resolver.  A
  \<^verbatim>\<open>StorageError\<close> is a failure of the SQL statement.
\<close>

datatype error =
  AssertionError string
| Error string
| RangeError string
| StorageError string

datatype warning = EXPIRE_IN_REMOVED | CLOCK_SKEW | CRON_DISABLED

fun warning_message :: "warning \<Rightarrow> string" where
  "warning_message EXPIRE_IN_REMOVED =
     [CHR 0x27] @ ''expireIn'' @ [CHR 0x27] @ '' option detected. This option has been removed. Use expireInSeconds, expireInMinutes or expireInHours.''"
| "warning_message CLOCK_SKEW =
     ''Timekeeper detected clock skew between this instance and the database server. This will not affect scheduling operations, but this warning is shown any time the skew exceeds 60 seconds.''"
| "warning_message CRON_DISABLED =
     ''Archive interval is set less than 60s.  Cron processing is disabled.''"

fun warning_code :: "warning \<Rightarrow> string" where
  "warning_code EXPIRE_IN_REMOVED = ''pg-boss-w01''"
| "warning_code CLOCK_SKEW = ''pg-boss-w02''"
| "warning_code CRON_DISABLED = ''pg-boss-w03''"

text \<open>
  The state that outlives a call: the objects of the heap (an object's address is its
  index; a new object is appended, so its address is fresh), the \<^verbatim>\<open>warned\<close> flag of
  each entry of the module constant \<^verbatim>\<open>WARNINGS\<close>, and the calls of
  \<^verbatim>\<open>process.emitWarning\<close> so far, oldest first, each as (message, code).
\<close>

type_synonym addr = nat

record world =
  heap :: "options list"
  warned :: "warning \<Rightarrow> bool"
  emitted :: "(string \<times> string) list"

text \<open>A process that has just started: no object, no warning given.\<close>

definition initial_world :: world where
  "initial_world = \<lparr> heap = [], warned = (\<lambda>k. False), emitted = [] \<rparr>"

text \<open>
  Reading the object behind a reference.  A reference of the program always points to
  a live object; for an address beyond the heap the model reads \<^verbatim>\<open>{}\<close>.
\<close>

definition obj_at :: "world \<Rightarrow> addr \<Rightarrow> options" where
  "obj_at w a = (if a < length (heap w) then heap w ! a else empty_options)"

text \<open>Writing the content of the object at an address (assignments to its keys).\<close>

definition set_obj :: "addr \<Rightarrow> options \<Rightarrow> world \<Rightarrow> world" where
  "set_obj a v w = w\<lparr> heap := (heap w)[a := v] \<rparr>"

text \<open>\<^verbatim>\<open>{ ...o }\<close>: a new object with the content \<open>v\<close>; returns its address.\<close>

definition new_object :: "options \<Rightarrow> world \<Rightarrow> addr \<times> world" where
  "new_object v w = (length (heap w), w\<lparr> heap := heap w @ [v] \<rparr>)"

text \<open>\<^verbatim>\<open>emitWarning(warning, message, { force })\<close>\<close>

definition emitWarning :: "warning \<Rightarrow> string option \<Rightarrow> bool \<Rightarrow> world \<Rightarrow> world" where
  "emitWarning warning message force w =
     (if force \<or> \<not> warned w warning
      then w\<lparr> warned := (warned w)(warning := True),
               emitted := emitted w @
                 [(warning_message warning @ '' '' @ (case message of Some m \<Rightarrow> m | None \<Rightarrow> ''''),
                   warning_code warning)] \<rparr>
      else w)"

definition warnClockSkew :: "string \<Rightarrow> world \<Rightarrow> world" where
  "warnClockSkew message w = emitWarning CLOCK_SKEW (Some message) True w"

section \<open>The resolver: \<^verbatim>\<open>attorney.ts\<close>\<close>

text \<open>
  The \<^verbatim>\<open>apply...Config\<close> functions assign to the keys of the object they are given.
  Each is modelled by the function from the content of that object before the call to
  its content after the call, or to the error thrown.  In each of them every assertion
  precedes the first assignment, so a call that throws leaves the object as it was.
\<close>

definition SINGLETON_QUEUE_KEY :: string where
  "SINGLETON_QUEUE_KEY = ''__pgboss__singleton_queue''"

text \<open>\<^verbatim>\<open>applyRetryConfig\<close>, lines 507 to 511: the caller's values merged with the defaults.\<close>

definition retry_merge :: "options \<Rightarrow> defaults option \<Rightarrow> options" where
  "retry_merge config defaults =
     (case defaults of
        None \<Rightarrow> config
      | Some d \<Rightarrow>
          (let config = config\<lparr> retryDelay := or_num (get (retryDelay config)) (get (d_retryDelay d)) \<rparr>;
               config = config\<lparr> retryLimit := or_num (get (retryLimit config)) (get (d_retryLimit d)) \<rparr>;
               config = config\<lparr> retryBackoff := or_bool (get (retryBackoff config)) (get (d_retryBackoff d)) \<rparr>
           in config))"

text \<open>\<^verbatim>\<open>applyRetryConfig\<close>, lines 513 to 519.\<close>

definition retry_corrections :: "options \<Rightarrow> options" where
  "retry_corrections config =
     (let config = config\<lparr> retryDelay := or_num (get (retryDelay config)) (Val 0) \<rparr>;
          config = config\<lparr> retryLimit := or_num (get (retryLimit config)) (Val 0) \<rparr>;
          config = config\<lparr> retryBackoff := Val (truthy_bool (retryBackoff config)) \<rparr>;
          config = config\<lparr> retryDelay :=
            (if truthy_bool (retryBackoff config) \<and> \<not> truthy_num (retryDelay config)
             then Val 1 else get (retryDelay config)) \<rparr>;
          config = config\<lparr> retryLimit :=
            (if truthy_num (retryDelay config) \<and> \<not> truthy_num (retryLimit config)
             then Val 1 else get (retryLimit config)) \<rparr>
      in config)"

text \<open>
  \<^verbatim>\<open>applyRetryConfig\<close>, lines 486 to 505: the first assertion that fails, if one does.
\<close>

definition retry_asserts :: "options \<Rightarrow> error option" where
  "retry_asserts config =
     (if \<not> (\<not> has (retryDelay config) \<or>
              (Number_isInteger (retryDelay config) \<and> truthy_num (retryDelay config) \<and>
               num_ge (retryDelay config) 0))
      then Some (AssertionError ''retryDelay must be an integer >= 0'')
      else if \<not> (\<not> has (retryLimit config) \<or>
              (Number_isInteger (retryLimit config) \<and> truthy_num (retryLimit config) \<and>
               num_ge (retryLimit config) 0))
      then Some (AssertionError ''retryLimit must be an integer >= 0'')
      else if \<not> (\<not> has (retryBackoff config) \<or> retryBackoff config = Val True \<or>
              retryBackoff config = Val False)
      then Some (AssertionError ''retryBackoff must be either true or false'')
      else None)"

definition applyRetryConfig :: "options \<Rightarrow> defaults option \<Rightarrow> error + options" where
  "applyRetryConfig config defaults =
     (case retry_asserts config of
        Some e \<Rightarrow> Inl e
      | None \<Rightarrow> Inr (retry_corrections (retry_merge config defaults)))"

text \<open>The conditional expression of \<^verbatim>\<open>applyExpirationConfig\<close>, lines 468 to 477.\<close>

definition expireIn_of :: "options \<Rightarrow> defaults option \<Rightarrow> string slot" where
  "expireIn_of config defaults =
     (if has (expireInHours config) then Val (template_num (expireInHours config) @ '' hours'')
      else if has (expireInMinutes config) then Val (template_num (expireInMinutes config) @ '' minutes'')
      else if has (expireInSeconds config) then Val (template_num (expireInSeconds config) @ '' seconds'')
      else (case defaults of Some d \<Rightarrow> get (d_expireIn d) | None \<Rightarrow> Val ''15 minutes''))"

text \<open>\<^verbatim>\<open>applyExpirationConfig\<close>, lines 450 to 466: the first assertion that fails.\<close>

definition expiration_asserts :: "options \<Rightarrow> error option" where
  "expiration_asserts config =
     (if \<not> (\<not> has (expireInSeconds config) \<or>
              (truthy_num (expireInSeconds config) \<and> num_ge (expireInSeconds config) 1))
      then Some (AssertionError
             ''configuration assert: expireInSeconds must be at least every second'')
      else if \<not> (\<not> has (expireInMinutes config) \<or>
              (truthy_num (expireInMinutes config) \<and> num_ge (expireInMinutes config) 1))
      then Some (AssertionError
             ''configuration assert: expireInMinutes must be at least every minute'')
      else if \<not> (\<not> has (expireInHours config) \<or>
              (truthy_num (expireInHours config) \<and> num_ge (expireInHours config) 1))
      then Some (AssertionError
             ''configuration assert: expireInHours must be at least every hour'')
      else None)"

text \<open>\<^verbatim>\<open>applyExpirationConfig\<close>, lines 450 to 479: the assertions and the assignment.\<close>

definition expiration_checked :: "options \<Rightarrow> defaults option \<Rightarrow> error + options" where
  "expiration_checked config defaults =
     (case expiration_asserts config of
        Some e \<Rightarrow> Inl e
      | None \<Rightarrow> Inr (config\<lparr> expireIn := expireIn_of config defaults \<rparr>))"

text \<open>
  \<^verbatim>\<open>applyExpirationConfig\<close>: the warning for a key \<^verbatim>\<open>expireIn\<close> comes first, whatever
  follows.
\<close>

definition applyExpirationConfig ::
  "options \<Rightarrow> defaults option \<Rightarrow> world \<Rightarrow> (error + options) \<times> world" where
  "applyExpirationConfig config defaults w =
     (let w = (if has (expireIn config) then emitWarning EXPIRE_IN_REMOVED None False w else w)
      in (expiration_checked config defaults, w))"

text \<open>The conditional expression of \<^verbatim>\<open>applyRetentionConfig\<close>, lines 426 to 437.\<close>

definition keepUntil_of :: "options \<Rightarrow> defaults option \<Rightarrow> string slot" where
  "keepUntil_of config defaults =
     (if has (retentionDays config) then Val (template_num (retentionDays config) @ '' days'')
      else if has (retentionHours config) then Val (template_num (retentionHours config) @ '' hours'')
      else if has (retentionMinutes config) then Val (template_num (retentionMinutes config) @ '' minutes'')
      else if has (retentionSeconds config) then Val (template_num (retentionSeconds config) @ '' seconds'')
      else (case defaults of Some d \<Rightarrow> get (d_keepUntil d) | None \<Rightarrow> Val ''14 days''))"

text \<open>\<^verbatim>\<open>applyRetentionConfig\<close>, lines 402 to 424: the first assertion that fails.\<close>

definition retention_asserts :: "options \<Rightarrow> error option" where
  "retention_asserts config =
     (if \<not> (\<not> has (retentionSeconds config) \<or>
              (truthy_num (retentionSeconds config) \<and> num_ge (retentionSeconds config) 1))
      then Some (AssertionError
             ''configuration assert: retentionSeconds must be at least every second'')
      else if \<not> (\<not> has (retentionMinutes config) \<or>
              (truthy_num (retentionMinutes config) \<and> num_ge (retentionMinutes config) 1))
      then Some (AssertionError
             ''configuration assert: retentionMinutes must be at least every minute'')
      else if \<not> (\<not> has (retentionHours config) \<or>
              (truthy_num (retentionHours config) \<and> num_ge (retentionHours config) 1))
      then Some (AssertionError
             ''configuration assert: retentionHours must be at least every hour'')
      else if \<not> (\<not> has (retentionDays config) \<or>
              (truthy_num (retentionDays config) \<and> num_ge (retentionDays config) 1))
      then Some (AssertionError
             ''configuration assert: retentionDays must be at least every day'')
      else None)"

definition applyRetentionConfig :: "options \<Rightarrow> defaults option \<Rightarrow> error + options" where
  "applyRetentionConfig config defaults =
     (case retention_asserts config of
        Some e \<Rightarrow> Inl e
      | None \<Rightarrow> Inr (config\<lparr> keepUntil := keepUntil_of config defaults \<rparr>))"

text \<open>The assertion of \<^verbatim>\<open>applyCompletionConfig\<close>, lines 386 to 391.\<close>

definition completion_asserts :: "options \<Rightarrow> error option" where
  "completion_asserts config =
     (if \<not> (\<not> has (onComplete config) \<or> onComplete config = Val True \<or>
              onComplete config = Val False)
      then Some (AssertionError
             ''configuration assert: onComplete must be either true or false'')
      else None)"

definition applyCompletionConfig :: "options \<Rightarrow> defaults option \<Rightarrow> error + options" where
  "applyCompletionConfig config defaults =
     (case completion_asserts config of
        Some e \<Rightarrow> Inl e
      | None \<Rightarrow>
          if \<not> has (onComplete config)
          then Inr (config\<lparr> onComplete :=
                      (case defaults of Some d \<Rightarrow> get (d_onComplete d) | None \<Rightarrow> Val False) \<rparr>)
          else Inr config)"

definition applySingletonKeyConfig :: "options \<Rightarrow> options" where
  "applySingletonKeyConfig opts =
     (let opts =
        (if truthy_str (singletonKey opts) \<and> truthy_bool (useSingletonQueue opts) \<and>
            singletonKey opts \<noteq> Val SINGLETON_QUEUE_KEY
         then opts\<lparr> singletonKey :=
                (case singletonKey opts of Val k \<Rightarrow> Val (SINGLETON_QUEUE_KEY @ k) | s \<Rightarrow> s) \<rparr>
         else opts)
      in opts\<lparr> useSingletonQueue := Absent \<rparr>)"

text \<open>
  A call that works on the object at address \<open>c\<close>: it reads the content, applies the
  function and, unless the function throws, writes the new content back.
\<close>

definition in_place ::
  "addr \<Rightarrow> (options \<Rightarrow> error + options) \<Rightarrow> world \<Rightarrow> error option \<times> world" where
  "in_place c f w =
     (case f (obj_at w c) of
        Inl e \<Rightarrow> (Some e, w)
      | Inr v \<Rightarrow> (None, set_obj c v w))"

text \<open>Statements in sequence: a thrown error skips what follows.\<close>

fun in_sequence ::
  "(world \<Rightarrow> error option \<times> world) list \<Rightarrow> world \<Rightarrow> error option \<times> world" where
  "in_sequence [] w = (None, w)"
| "in_sequence (step # steps) w =
     (case step w of
        (Some e, w') \<Rightarrow> (Some e, w')
      | (None, w') \<Rightarrow> in_sequence steps w')"

text \<open>The number in a slot that is known to hold one.\<close>

definition the_num :: "int slot \<Rightarrow> int" where
  "the_num p = (case p of Val n \<Rightarrow> n | _ \<Rightarrow> 0)"

definition the_num_null :: "int option slot \<Rightarrow> int" where
  "the_num_null p = (case p of Val (Some n) \<Rightarrow> n | _ \<Rightarrow> 0)"

definition template_num_null :: "int option slot \<Rightarrow> string" where
  "template_num_null p =
     (case p of Val (Some n) \<Rightarrow> Number_toString n | Val None \<Rightarrow> ''null'' | _ \<Rightarrow> ''undefined'')"

text \<open>
  \<^verbatim>\<open>checkSendArgs\<close>, lines 131 to 138.  For a string both the branch
  \<^verbatim>\<open>startAfter && startAfter > 0\<close> (which assigns \<^verbatim>\<open>"" + startAfter\<close>) and the branch
  \<^verbatim>\<open>typeof startAfter === "string"\<close> assign the string itself.
\<close>

definition startAfter_of :: "start_after slot \<Rightarrow> error + start_after slot" where
  "startAfter_of sa =
     (case sa of
        Val (SADate printed) \<Rightarrow>
          (case printed of
             Some s \<Rightarrow> Inr (Val (SAStr s))
           | None \<Rightarrow> Inl (RangeError ''Invalid time value''))
      | Val (SANum n) \<Rightarrow>
          Inr (if n \<noteq> 0 \<and> n > 0 then Val (SAStr (Number_toString n)) else Val SANull)
      | Val (SAStr s) \<Rightarrow> Inr (Val (SAStr s))
      | _ \<Rightarrow> Inr (Val SANull))"

text \<open>\<^verbatim>\<open>checkSendArgs\<close>, lines 140 to 146, on the values read at line 128.\<close>

definition singletonSeconds_of ::
  "int option slot \<Rightarrow> int slot \<Rightarrow> int slot \<Rightarrow> int option slot" where
  "singletonSeconds_of seconds minutes hours =
     (if truthy_num hours \<and> num_gt hours 0 then Val (Some (the_num hours * 60 * 60))
      else if truthy_num minutes \<and> num_gt minutes 0 then Val (Some (the_num minutes * 60))
      else if truthy_num_null seconds \<and> the_num_null seconds > 0
      then Val (Some (the_num_null seconds * 60))
      else Val None)"

text \<open>The assertion of \<^verbatim>\<open>checkSendArgs\<close>, lines 148 to 152, on the value read at line 128.\<close>

definition archive_check :: "int option slot \<Rightarrow> defaults \<Rightarrow> bool" where
  "archive_check seconds defaults =
     (\<not> truthy_num_null seconds \<or>
      (truthy_num (d_archiveSeconds defaults) \<and>
       the_num_null seconds \<le> the_num (d_archiveSeconds defaults)))"

definition archive_message :: "int option slot \<Rightarrow> defaults \<Rightarrow> string" where
  "archive_message seconds defaults =
     ''throttling interval '' @ template_num_null seconds @
     ''s cannot exceed archive interval '' @ template_num (d_archiveSeconds defaults) @ ''s''"

text \<open>
  \<^verbatim>\<open>checkSendArgs\<close>, lines 128 to 152, on the object at \<open>c\<close>: the four values are read
  first, then \<^verbatim>\<open>startAfter\<close> and \<^verbatim>\<open>singletonSeconds\<close> are assigned, then the assertion
  is made on the value of \<^verbatim>\<open>singletonSeconds\<close> that was read first.
\<close>

definition resolve_start_and_singleton ::
  "addr \<Rightarrow> defaults \<Rightarrow> world \<Rightarrow> error option \<times> world" where
  "resolve_start_and_singleton c defaults w =
     (let opts = obj_at w c;
          startAfter' = get (startAfter opts);
          singletonSeconds' = get (singletonSeconds opts);
          singletonMinutes' = get (singletonMinutes opts);
          singletonHours' = get (singletonHours opts)
      in
        case startAfter_of startAfter' of
          Inl e \<Rightarrow> (Some e, w)
        | Inr sa \<Rightarrow>
            (let w = set_obj c (opts\<lparr> startAfter := sa \<rparr>) w;
                 w = set_obj c ((obj_at w c)\<lparr> singletonSeconds :=
                        singletonSeconds_of singletonSeconds' singletonMinutes' singletonHours' \<rparr>) w
             in
               if \<not> archive_check singletonSeconds' defaults
               then (Some (AssertionError (archive_message singletonSeconds' defaults)), w)
               else (None, w)))"

text \<open>The payload \<^verbatim>\<open>data\<close>: nothing, an object (by a name for it), or a function.\<close>

datatype payload = DataUndefined | DataObject string | DataFunction

text \<open>\<^verbatim>\<open>Request\<close>; the options are a reference to an object of the heap.\<close>

record request =
  req_name :: string
  req_data :: payload
  req_options :: "addr option"

text \<open>
  The argument of \<^verbatim>\<open>checkSendArgs\<close>, \<^verbatim>\<open>Request | RequestTuple\<close>.  For a tuple
  \<^verbatim>\<open>args[0]\<close> is the name, a string; for a request object \<^verbatim>\<open>args[0]\<close> is
  \<^verbatim>\<open>undefined\<close>, so the branch \<^verbatim>\<open>typeof args[0] === "object"\<close> is taken by neither
  and a request object reaches the last branch, which reads its name only.
\<close>

datatype send_args = ArgsTuple string payload "addr option" | ArgsRequest request

text \<open>\<^verbatim>\<open>checkSendArgs\<close>, lines 109 to 154.\<close>

definition resolve ::
  "string \<Rightarrow> payload \<Rightarrow> addr option \<Rightarrow> defaults \<Rightarrow> world \<Rightarrow> (error + request) \<times> world" where
  "resolve name data' options' defaults w =
     (let opts = (case options' of Some a \<Rightarrow> obj_at w a | None \<Rightarrow> empty_options)
      in
        if name = [] then (Inl (AssertionError ''boss requires all jobs to have a queue name''), w)
        else
          (let (c, w) = new_object opts w
           in
             if \<not> (\<not> has (priority (obj_at w c)) \<or> Number_isInteger (priority (obj_at w c)))
             then (Inl (AssertionError ''priority must be an integer''), w)
             else
               (case in_sequence
                  [ in_place c (\<lambda>opts. Inr (opts\<lparr> priority := or_num (get (priority opts)) (Val 0) \<rparr>)),
                    in_place c (\<lambda>opts. applyRetryConfig opts (Some defaults)),
                    (\<lambda>w. case applyExpirationConfig (obj_at w c) (Some defaults) w of
                            (Inl e, w') \<Rightarrow> (Some e, w')
                          | (Inr v, w') \<Rightarrow> (None, set_obj c v w')),
                    in_place c (\<lambda>opts. applyRetentionConfig opts (Some defaults)),
                    in_place c (\<lambda>opts. applyCompletionConfig opts (Some defaults)),
                    in_place c (\<lambda>opts. Inr (applySingletonKeyConfig opts)),
                    resolve_start_and_singleton c defaults ] w
                of
                  (Some e, w') \<Rightarrow> (Inl e, w')
                | (None, w') \<Rightarrow>
                    (Inr \<lparr> req_name = name, req_data = data', req_options = Some c \<rparr>, w'))))"

definition checkSendArgs ::
  "send_args \<Rightarrow> defaults \<Rightarrow> world \<Rightarrow> (error + request) \<times> world" where
  "checkSendArgs args defaults w =
     (case args of
        ArgsTuple argName argData argOptions \<Rightarrow>
          if argData = DataFunction
          then (Inl (Error
                 ''send() cannot accept a function as the payload. Did you intend to use work()?''), w)
          else resolve argName argData argOptions defaults w
      | ArgsRequest job \<Rightarrow> resolve (req_name job) DataUndefined None defaults w)"

text \<open>
  \<^verbatim>\<open>checkInsertArgs\<close>: \<^verbatim>\<open>jobs\<close> is an array of references; the result is a new array
  with a new object for each job.
\<close>

fun checkInsertArgs_map :: "addr list \<Rightarrow> world \<Rightarrow> addr list \<times> world" where
  "checkInsertArgs_map [] w = ([], w)"
| "checkInsertArgs_map (job # jobs) w =
     (let (job', w) = new_object (obj_at w job) w;
          w = set_obj job' (applySingletonKeyConfig (obj_at w job')) w;
          (rest, w) = checkInsertArgs_map jobs w
      in (job' # rest, w))"

definition checkInsertArgs :: "addr list \<Rightarrow> world \<Rightarrow> (error + addr list) \<times> world" where
  "checkInsertArgs jobs w = (let (jobs', w) = checkInsertArgs_map jobs w in (Inr jobs', w))"

text \<open>The resolved options of a request that \<^verbatim>\<open>checkSendArgs\<close> has returned.\<close>

definition resolved :: "(error + request) \<times> world \<Rightarrow> options option" where
  "resolved r =
     (case r of
        (Inr req, w) \<Rightarrow> (case req_options req of Some c \<Rightarrow> Some (obj_at w c) | None \<Rightarrow> None)
      | (Inl e, w) \<Rightarrow> None)"

text \<open>The errors that the resolver throws are the validation errors.\<close>

fun is_validation_error :: "error \<Rightarrow> bool" where
  "is_validation_error (StorageError m) = False"
| "is_validation_error e = True"

subsection \<open>The other callers of \<^verbatim>\<open>emitWarning\<close>\<close>

text \<open>
  \<^verbatim>\<open>getConfig\<close> reaches \<^verbatim>\<open>emitWarning\<close> through \<^verbatim>\<open>applyArchiveConfig\<close>,
  \<^verbatim>\<open>applyArchiveFailedConfig\<close> and \<^verbatim>\<open>applyExpirationConfig\<close>.  The first two work on
  these keys of the configuration object.
\<close>

record archive_config =
  archiveCompletedAfterSeconds :: "int slot"
  archiveSeconds :: "int slot"
  archiveInterval :: "string slot"
  archiveFailedAfterSeconds :: "int slot"
  archiveFailedSeconds :: "int slot"
  archiveFailedInterval :: "string slot"

definition ARCHIVE_DEFAULT :: int where
  "ARCHIVE_DEFAULT = 60 * 60 * 12"

definition applyArchiveConfig ::
  "archive_config \<Rightarrow> world \<Rightarrow> (error + archive_config) \<times> world" where
  "applyArchiveConfig config w =
     (if \<not> (\<not> has (archiveCompletedAfterSeconds config) \<or>
              (truthy_num (archiveCompletedAfterSeconds config) \<and>
               num_ge (archiveCompletedAfterSeconds config) 1))
      then (Inl (AssertionError
             ''configuration assert: archiveCompletedAfterSeconds must be at least every second and less than ''), w)
      else
        (let config = config\<lparr> archiveSeconds :=
               or_num (get (archiveCompletedAfterSeconds config)) (Val ARCHIVE_DEFAULT) \<rparr>;
             config = config\<lparr> archiveInterval :=
               Val (template_num (archiveSeconds config) @ '' seconds'') \<rparr>;
             w = (if the_num (archiveSeconds config) < 60
                  then emitWarning CRON_DISABLED None False w else w)
         in (Inr config, w)))"

definition applyArchiveFailedConfig ::
  "archive_config \<Rightarrow> world \<Rightarrow> (error + archive_config) \<times> world" where
  "applyArchiveFailedConfig config w =
     (if \<not> (\<not> has (archiveFailedAfterSeconds config) \<or>
              (truthy_num (archiveFailedAfterSeconds config) \<and>
               num_ge (archiveFailedAfterSeconds config) 1))
      then (Inl (AssertionError
             ''configuration assert: archiveFailedAfterSeconds must be at least every second and less than ''), w)
      else
        (let config = config\<lparr> archiveFailedSeconds :=
               or_num (get (archiveFailedAfterSeconds config)) (get (archiveSeconds config)) \<rparr>;
             config = config\<lparr> archiveFailedInterval :=
               Val (template_num (archiveFailedSeconds config) @ '' seconds'') \<rparr>;
             w = (if truthy_num (archiveFailedSeconds config) \<and>
                     the_num (archiveFailedSeconds config) < 60 \<and>
                     truthy_num (archiveSeconds config) \<and>
                     num_ge (archiveSeconds config) 60
                  then emitWarning CRON_DISABLED None False w else w)
         in (Inr config, w)))"

text \<open>
  A call of one of the functions of \<^verbatim>\<open>attorney.ts\<close> that can reach \<^verbatim>\<open>emitWarning\<close>,
  or of one of the two resolvers.  The life of a process is a list of such calls.
\<close>

datatype call =
  Call_checkSendArgs send_args defaults
| Call_checkInsertArgs "addr list"
| Call_applyExpirationConfig options "defaults option"
| Call_applyArchiveConfig archive_config
| Call_applyArchiveFailedConfig archive_config
| Call_warnClockSkew string

fun run_call :: "call \<Rightarrow> world \<Rightarrow> world" where
  "run_call (Call_checkSendArgs args defaults) w = snd (checkSendArgs args defaults w)"
| "run_call (Call_checkInsertArgs jobs) w = snd (checkInsertArgs jobs w)"
| "run_call (Call_applyExpirationConfig config defaults) w =
     snd (applyExpirationConfig config defaults w)"
| "run_call (Call_applyArchiveConfig config) w = snd (applyArchiveConfig config w)"
| "run_call (Call_applyArchiveFailedConfig config) w = snd (applyArchiveFailedConfig config w)"
| "run_call (Call_warnClockSkew message) w = warnClockSkew message w"

fun run_calls :: "call list \<Rightarrow> world \<Rightarrow> world" where
  "run_calls [] w = w"
| "run_calls (c # cs) w = run_calls cs (run_call c w)"

text \<open>How often a warning has been emitted, and how often the clock-skew check ran.\<close>

definition times_emitted :: "warning \<Rightarrow> world \<Rightarrow> nat" where
  "times_emitted k w = length (filter (\<lambda>e. snd e = warning_code k) (emitted w))"

fun is_warnClockSkew :: "call \<Rightarrow> bool" where
  "is_warnClockSkew (Call_warnClockSkew message) = True"
| "is_warnClockSkew c = False"

section \<open>The enqueue engine: \<^verbatim>\<open>createJob\<close> and the helpers\<close>

text \<open>
  \<^verbatim>\<open>createJob\<close> builds the array \<^verbatim>\<open>values\<close> and one SQL statement.  The statement is
  modelled by what it computes: the row of the innermost \<^verbatim>\<open>SELECT\<close> (\<open>j1\<close>), the
  columns \<^verbatim>\<open>startAfter\<close> (\<open>j2\<close>) and \<^verbatim>\<open>keepUntil\<close> (\<open>j3\<close>), and the
  \<^verbatim>\<open>INSERT ... ON CONFLICT DO NOTHING RETURNING id\<close>.  Times are seconds since the
  epoch, intervals are seconds.  The statement runs on the one job table of the
  configured schema; \<open>now\<close> is the \<^verbatim>\<open>now()\<close> of the statement and \<open>uid\<close> what
  \<^verbatim>\<open>uuid()\<close> returns.
\<close>

type_synonym uuid = string

definition pgBossConfig_keepUntil :: string where
  "pgBossConfig_keepUntil = ''14 days''"

definition pgBossConfig_expireIn :: string where
  "pgBossConfig_expireIn = ''15 minutes''"

text \<open>The array \<^verbatim>\<open>values\<close>, lines 292 to 307.\<close>

record insert_values =
  v_id :: uuid
  v_name :: string
  v_priority :: "int slot"
  v_retryLimit :: "int slot"
  v_startAfter :: "start_after slot"
  v_expireIn :: string
  v_data :: payload
  v_singletonKey :: "string option"
  v_singletonSeconds :: "int option slot"
  v_singletonOffset :: int
  v_retryDelay :: "int slot"
  v_retryBackoff :: "bool slot"
  v_keepUntil :: string
  v_onComplete :: bool

text \<open>
  Lines 246 to 307.  \<open>options\<close> is the content of the options object, \<open>None\<close> when
  \<^verbatim>\<open>options\<close> is \<^verbatim>\<open>undefined\<close>.  The module variable \<^verbatim>\<open>pgBossConfig\<close> is always
  defined.  The defaults of the destructuring (\<^verbatim>\<open>singletonKey = null\<close>,
  \<^verbatim>\<open>onComplete = false\<close>) replace \<^verbatim>\<open>undefined\<close> only.
\<close>

definition createJob_values ::
  "uuid \<Rightarrow> string \<Rightarrow> payload \<Rightarrow> options option \<Rightarrow> insert_values" where
  "createJob_values uid name data' options' =
     (let keepUntil' =
            (case options' of
               None \<Rightarrow> ''14 days''
             | Some opts \<Rightarrow>
                 if has (retentionDays opts) then template_num (retentionDays opts) @ '' days''
                 else if has (retentionHours opts) then template_num (retentionHours opts) @ '' hours''
                 else if has (retentionMinutes opts) then template_num (retentionMinutes opts) @ '' minutes''
                 else if has (retentionSeconds opts) then template_num (retentionSeconds opts) @ '' seconds''
                 else pgBossConfig_keepUntil);
          expireIn' =
            (case options' of
               None \<Rightarrow> ''15 minutes''
             | Some opts \<Rightarrow>
                 if has (expireInHours opts) then template_num (expireInHours opts) @ '' hours''
                 else if has (expireInMinutes opts) then template_num (expireInMinutes opts) @ '' minutes''
                 else if has (expireInSeconds opts) then template_num (expireInSeconds opts) @ '' seconds''
                 else pgBossConfig_expireIn);
          singletonOffset' =
            (case options' of
               None \<Rightarrow> 0
             | Some opts \<Rightarrow> if has (singletonOffset opts) then 1 else 0);
          opts = (case options' of Some opts \<Rightarrow> opts | None \<Rightarrow> empty_options)
      in \<lparr> v_id = uid,
           v_name = name,
           v_priority = get (priority opts),
           v_retryLimit = get (retryLimit opts),
           v_startAfter = get (startAfter opts),
           v_expireIn = expireIn',
           v_data = data',
           v_singletonKey = (case singletonKey opts of Val k \<Rightarrow> Some k | _ \<Rightarrow> None),
           v_singletonSeconds = get (singletonSeconds opts),
           v_singletonOffset = singletonOffset',
           v_retryDelay = get (retryDelay opts),
           v_retryBackoff = get (retryBackoff opts),
           v_keepUntil = keepUntil',
           v_onComplete = (case onComplete opts of Val b \<Rightarrow> b | _ \<Rightarrow> False) \<rparr>)"

text \<open>
  The casts of the database server from text, \<^verbatim>\<open>CAST(t AS interval)\<close> and
  \<^verbatim>\<open>CAST(t AS timestamp with time zone)\<close>, are parameters of the model; \<open>None\<close> is a
  text that the server rejects, which fails the statement.
\<close>

record pg =
  to_interval :: "string \<Rightarrow> rat option"
  to_timestamptz :: "string \<Rightarrow> rat option"

text \<open>A row of the job table, with the columns that the statement inserts.\<close>

record job_row =
  j_id :: uuid
  j_name :: string
  j_priority :: "int option"
  j_state :: string
  j_retryLimit :: "int option"
  j_startAfter :: rat
  j_expireIn :: rat
  j_data :: payload
  j_singletonKey :: "string option"
  j_singletonOn :: "int option"
  j_retryDelay :: "int option"
  j_retryBackoff :: "bool option"
  j_keepUntil :: rat
  j_on_complete :: bool

text \<open>
  A parameter as the statement sees it: \<^verbatim>\<open>undefined\<close> and \<^verbatim>\<open>null\<close> arrive as
  \<^verbatim>\<open>NULL\<close>; a number or a date cast to \<^verbatim>\<open>text\<close> is its printed form.
\<close>

definition sql_int :: "int slot \<Rightarrow> int option" where
  "sql_int p = (case p of Val n \<Rightarrow> Some n | _ \<Rightarrow> None)"

definition sql_bool :: "bool slot \<Rightarrow> bool option" where
  "sql_bool p = (case p of Val b \<Rightarrow> Some b | _ \<Rightarrow> None)"

definition sql_int_null :: "int option slot \<Rightarrow> int option" where
  "sql_int_null p = (case p of Val (Some n) \<Rightarrow> Some n | _ \<Rightarrow> None)"

definition sql_text :: "start_after slot \<Rightarrow> string option" where
  "sql_text p =
     (case p of
        Val (SAStr t) \<Rightarrow> Some t
      | Val (SANum n) \<Rightarrow> Some (Number_toString n)
      | Val (SADate printed) \<Rightarrow> printed
      | _ \<Rightarrow> None)"

text \<open>
  Lines 375 to 378:
  \<^verbatim>\<open>CASE WHEN $9::integer IS NOT NULL THEN 'epoch'::timestamp + '1 second'::interval * ($9 * floor((date_part('epoch', now()) + $10) / $9)) ELSE NULL END\<close>.
  A division by zero fails the statement.
\<close>

definition singletonOn_of :: "int option \<Rightarrow> int \<Rightarrow> rat \<Rightarrow> error + int option" where
  "singletonOn_of seconds offset now =
     (case seconds of
        None \<Rightarrow> Inr None
      | Some s \<Rightarrow>
          if s = 0 then Inl (StorageError ''division by zero'')
          else Inr (Some (s * \<lfloor>(now + of_int offset) / of_int s\<rfloor>)))"

text \<open>
  Lines 354 to 357 and 360 to 363:
  \<^verbatim>\<open>CASE WHEN right(t, 1) = 'Z' THEN CAST(t as timestamp with time zone) ELSE base + CAST(COALESCE(t,'0') as interval) END\<close>.
\<close>

definition ends_with_Z :: "string option \<Rightarrow> bool" where
  "ends_with_Z t = (case t of Some s \<Rightarrow> s \<noteq> [] \<and> last s = CHR ''Z'' | None \<Rightarrow> False)"

definition timestamp_of :: "pg \<Rightarrow> rat \<Rightarrow> string option \<Rightarrow> error + rat" where
  "timestamp_of server base t =
     (if ends_with_Z t
      then (case to_timestamptz server (case t of Some s \<Rightarrow> s | None \<Rightarrow> []) of
              Some instant \<Rightarrow> Inr instant
            | None \<Rightarrow> Inl (StorageError ''invalid input syntax for type timestamp with time zone''))
      else (case to_interval server (case t of Some s \<Rightarrow> s | None \<Rightarrow> ''0'') of
              Some i \<Rightarrow> Inr (base + i)
            | None \<Rightarrow> Inl (StorageError ''invalid input syntax for type interval'')))"

text \<open>The \<^verbatim>\<open>SELECT\<close> of lines 337 to 385: the row to insert, or the failure.\<close>

definition select_row :: "pg \<Rightarrow> rat \<Rightarrow> insert_values \<Rightarrow> error + job_row" where
  "select_row server now v =
     (case to_interval server (v_expireIn v) of
        None \<Rightarrow> Inl (StorageError ''invalid input syntax for type interval'')
      | Some expireIn' \<Rightarrow>
     (case singletonOn_of (sql_int_null (v_singletonSeconds v)) (v_singletonOffset v) now of
        Inl e \<Rightarrow> Inl e
      | Inr singletonOn' \<Rightarrow>
     (case timestamp_of server now (sql_text (v_startAfter v)) of
        Inl e \<Rightarrow> Inl e
      | Inr startAfter' \<Rightarrow>
     (case timestamp_of server startAfter' (Some (v_keepUntil v)) of
        Inl e \<Rightarrow> Inl e
      | Inr keepUntil' \<Rightarrow>
          Inr \<lparr> j_id = v_id v,
                j_name = v_name v,
                j_priority = sql_int (v_priority v),
                j_state = ''created'',
                j_retryLimit = sql_int (v_retryLimit v),
                j_startAfter = startAfter',
                j_expireIn = expireIn',
                j_data = v_data v,
                j_singletonKey = v_singletonKey v,
                j_singletonOn = singletonOn',
                j_retryDelay = sql_int (v_retryDelay v),
                j_retryBackoff = sql_bool (v_retryBackoff v),
                j_keepUntil = keepUntil',
                j_on_complete = v_onComplete v \<rparr>))))"

text \<open>
  Modelled from the spec: the declaration of the job table, which is pg-boss's and
  not in this repository.  The spec gives it one uniqueness constraint, over (name,
  singleton key, singleton-window timestamp), that applies where the singleton key is
  not null; a null window timestamp (no windowing) never conflicts.  Two rows violate
  it when:
\<close>

definition same_window :: "job_row \<Rightarrow> job_row \<Rightarrow> bool" where
  "same_window a b =
     (j_name a = j_name b \<and>
      j_singletonKey a \<noteq> None \<and> j_singletonKey a = j_singletonKey b \<and>
      j_singletonOn a \<noteq> None \<and> j_singletonOn a = j_singletonOn b)"

text \<open>
  \<^verbatim>\<open>INSERT ... ON CONFLICT DO NOTHING RETURNING id\<close>: the rows returned and the table
  afterwards.
\<close>

definition insert_row :: "job_row \<Rightarrow> job_row list \<Rightarrow> uuid list \<times> job_row list" where
  "insert_row r table =
     (if list_ex (\<lambda>x. same_window x r) table then ([], table)
      else ([j_id r], table @ [r]))"

text \<open>
  \<^verbatim>\<open>createJob\<close>, for the result of the promise it returns: the rows of
  \<^verbatim>\<open>RETURNING id\<close> or the error of the statement, and the table afterwards.
\<close>

definition createJob ::
  "pg \<Rightarrow> rat \<Rightarrow> uuid \<Rightarrow> string \<Rightarrow> payload \<Rightarrow> addr option \<Rightarrow> world \<Rightarrow> job_row list \<Rightarrow>
     (error + uuid list) \<times> job_row list" where
  "createJob server now uid name data' options' w table =
     (let values = createJob_values uid name data'
                     (case options' of Some a \<Rightarrow> Some (obj_at w a) | None \<Rightarrow> None)
      in case select_row server now values of
           Inl e \<Rightarrow> (Inl e, table)
         | Inr r \<Rightarrow> (let (ids, table) = insert_row r table in (Inr ids, table)))"

text \<open>
  \<^verbatim>\<open>sendThrottled\<close>, lines 196 to 216, and \<^verbatim>\<open>sendDebounced\<close>, lines 218 to 238;
  \<open>config\<close> is \<^verbatim>\<open>this.config\<close>.  The result is that of the promise, with the state of
  the process and the table afterwards.
\<close>

definition sendThrottled ::
  "pg \<Rightarrow> rat \<Rightarrow> uuid \<Rightarrow> defaults \<Rightarrow> string \<Rightarrow> payload \<Rightarrow> addr option \<Rightarrow> int \<Rightarrow> string \<Rightarrow>
     world \<Rightarrow> job_row list \<Rightarrow> (error + uuid list) \<times> world \<times> job_row list" where
  "sendThrottled server now uid config name data' options' seconds key w table =
     (let (c, w) = new_object (case options' of Some a \<Rightarrow> obj_at w a | None \<Rightarrow> empty_options) w;
          w = set_obj c ((obj_at w c)\<lparr> singletonSeconds := Val (Some seconds) \<rparr>) w;
          w = set_obj c ((obj_at w c)\<lparr> singletonNextSlot := Val False \<rparr>) w;
          w = set_obj c ((obj_at w c)\<lparr> singletonKey := Val key \<rparr>) w
      in case checkSendArgs (ArgsTuple name data' (Some c)) config w of
           (Inl e, w) \<Rightarrow> (Inl e, w, table)
         | (Inr result, w) \<Rightarrow>
             (let (r, table) = createJob server now uid (req_name result) (req_data result)
                                 (req_options result) w table
              in (r, w, table)))"

definition sendDebounced ::
  "pg \<Rightarrow> rat \<Rightarrow> uuid \<Rightarrow> defaults \<Rightarrow> string \<Rightarrow> payload \<Rightarrow> addr option \<Rightarrow> int \<Rightarrow> string \<Rightarrow>
     world \<Rightarrow> job_row list \<Rightarrow> (error + uuid list) \<times> world \<times> job_row list" where
  "sendDebounced server now uid config name data' options' seconds key w table =
     (let (c, w) = new_object (case options' of Some a \<Rightarrow> obj_at w a | None \<Rightarrow> empty_options) w;
          w = set_obj c ((obj_at w c)\<lparr> singletonSeconds := Val (Some seconds) \<rparr>) w;
          w = set_obj c ((obj_at w c)\<lparr> singletonNextSlot := Val True \<rparr>) w;
          w = set_obj c ((obj_at w c)\<lparr> singletonKey := Val key \<rparr>) w
      in case checkSendArgs (ArgsTuple name data' (Some c)) config w of
           (Inl e, w) \<Rightarrow> (Inl e, w, table)
         | (Inr result, w) \<Rightarrow>
             (let (r, table) = createJob server now uid (req_name result) (req_data result)
                                 (req_options result) w table
              in (r, w, table)))"

text \<open>A server for examples: it knows the two default intervals and \<^verbatim>\<open>'0'\<close>.\<close>

definition example_pg :: pg where
  "example_pg =
     \<lparr> to_interval = (\<lambda>t. if t = ''15 minutes'' then Some 900
                          else if t = ''14 days'' then Some 1209600
                          else if t = ''0'' then Some 0 else None),
       to_timestamptz = (\<lambda>t. None) \<rparr>"

section \<open>Notions of the verification\<close>

text \<open>
  The steps of \<^const>\<open>resolve\<close> all work on the one new object, so their effect is a
  function of the content of the caller's options: \<open>resolve_content\<close>, which is shown
  below to be what \<^const>\<open>resolve\<close> computes (\<open>fst_resolve\<close>, \<open>resolved_resolve\<close>).
\<close>

definition resolve_content :: "options \<Rightarrow> defaults \<Rightarrow> error + options" where
  "resolve_content opts defaults =
     (if \<not> (\<not> has (priority opts) \<or> Number_isInteger (priority opts))
      then Inl (AssertionError ''priority must be an integer'')
      else
        case applyRetryConfig (opts\<lparr> priority := or_num (get (priority opts)) (Val 0) \<rparr>)
               (Some defaults) of
          Inl e \<Rightarrow> Inl e
        | Inr o1 \<Rightarrow>
        (case expiration_checked o1 (Some defaults) of
          Inl e \<Rightarrow> Inl e
        | Inr o2 \<Rightarrow>
        (case applyRetentionConfig o2 (Some defaults) of
          Inl e \<Rightarrow> Inl e
        | Inr o3 \<Rightarrow>
        (case applyCompletionConfig o3 (Some defaults) of
          Inl e \<Rightarrow> Inl e
        | Inr o4 \<Rightarrow>
        (let o5 = applySingletonKeyConfig o4 in
         case startAfter_of (get (startAfter o5)) of
           Inl e \<Rightarrow> Inl e
         | Inr sa \<Rightarrow>
             if \<not> archive_check (get (singletonSeconds o5)) defaults
             then Inl (AssertionError (archive_message (get (singletonSeconds o5)) defaults))
             else Inr (o5\<lparr> startAfter := sa,
                    singletonSeconds := singletonSeconds_of (get (singletonSeconds o5))
                       (get (singletonMinutes o5)) (get (singletonHours o5)) \<rparr>))))))"

text \<open>A process that has given no warning yet and whose heap holds the objects \<open>objs\<close>.\<close>

definition world_with :: "options list \<Rightarrow> world" where
  "world_with objs = initial_world\<lparr> heap := objs \<rparr>"

text \<open>
  What lines 84 to 111 take from the argument: the name, the payload, and the options.
  A tuple gives all three; of a request object only the name is read (line 106), so
  its options are those of \<^verbatim>\<open>{}\<close>.
\<close>

definition args_name :: "send_args \<Rightarrow> string" where
  "args_name args = (case args of ArgsTuple n dat opt \<Rightarrow> n | ArgsRequest job \<Rightarrow> req_name job)"


definition args_data :: "send_args \<Rightarrow> payload" where
  "args_data args = (case args of ArgsTuple n dat opt \<Rightarrow> dat | ArgsRequest job \<Rightarrow> DataUndefined)"


definition options_read :: "send_args \<Rightarrow> world \<Rightarrow> options" where
  "options_read args w =
     (case args of
        ArgsTuple n dat (Some a) \<Rightarrow> obj_at w a
      | ArgsTuple n dat None \<Rightarrow> empty_options
      | ArgsRequest job \<Rightarrow> empty_options)"


text \<open>The error thrown by lines 84 to 111, if any.\<close>

definition entry_error :: "send_args \<Rightarrow> error option" where
  "entry_error args =
     (if (case args of ArgsTuple n dat opt \<Rightarrow> dat = DataFunction | ArgsRequest job \<Rightarrow> False)
      then Some (Error ''send() cannot accept a function as the payload. Did you intend to use work()?'')
      else if args_name args = []
      then Some (AssertionError ''boss requires all jobs to have a queue name'')
      else None)"





text \<open>The content of the copy after the assignments of lines 120 to 146.\<close>

definition assigned :: "options \<Rightarrow> defaults \<Rightarrow> start_after slot \<Rightarrow> options" where
  "assigned opts d sa =
     (let o1 = retry_corrections
                 (retry_merge (opts\<lparr> priority := or_num (get (priority opts)) (Val 0) \<rparr>) (Some d));
          o3 = o1\<lparr> expireIn := expireIn_of opts (Some d), keepUntil := keepUntil_of opts (Some d) \<rparr>;
          o4 = (if has (onComplete opts) then o3 else o3\<lparr> onComplete := get (d_onComplete d) \<rparr>)
      in (applySingletonKeyConfig o4)
           \<lparr> startAfter := sa,
             singletonSeconds := singletonSeconds_of (get (singletonSeconds opts))
               (get (singletonMinutes opts)) (get (singletonHours opts)) \<rparr>)"

text \<open>The heap \<open>h'\<close> is the heap \<open>h\<close> followed by new objects.\<close>

definition grown :: "options list \<Rightarrow> options list \<Rightarrow> bool" where
  "grown h h' = (\<exists>new. h' = h @ new)"

text \<open>
  No warning other than the clock-skew warning has been emitted more often than its
  \<^verbatim>\<open>warned\<close> flag allows, and the clock-skew warning has been emitted \<open>n\<close> times.
\<close>

definition warned_once :: "nat \<Rightarrow> world \<Rightarrow> bool" where
  "warned_once n w =
     ((\<forall>k. k \<noteq> CLOCK_SKEW \<longrightarrow> times_emitted k w \<le> (if warned w k then 1 else 0)) \<and>
      times_emitted CLOCK_SKEW w = n)"

text \<open>The row that the statement of \<^verbatim>\<open>createJob\<close> computes, or its failure.\<close>

definition createJob_row ::
  "pg \<Rightarrow> rat \<Rightarrow> uuid \<Rightarrow> string \<Rightarrow> payload \<Rightarrow> addr option \<Rightarrow> world \<Rightarrow> error + job_row" where
  "createJob_row server now uid name dat optref w =
     select_row server now
       (createJob_values uid name dat (case optref of Some a \<Rightarrow> Some (obj_at w a) | None \<Rightarrow> None))"

text \<open>The offset of line 276.\<close>

definition offset_of :: "options \<Rightarrow> int" where
  "offset_of opts = (if has (singletonOffset opts) then 1 else 0)"

text \<open>
  The options object that a helper hands to \<^verbatim>\<open>checkSendArgs\<close>: the copy of the
  base options after the three assignments (lines 203 to 206 and 225 to 228).
\<close>

definition prepared :: "options \<Rightarrow> int \<Rightarrow> bool \<Rightarrow> string \<Rightarrow> options" where
  "prepared base seconds nextSlot key =
     base\<lparr> singletonSeconds := Val (Some seconds), singletonNextSlot := Val nextSlot,
           singletonKey := Val key \<rparr>"

text \<open>What a helper returns and what it leaves in the table, from the prepared options.\<close>

definition windowed_outcome ::
  "pg \<Rightarrow> rat \<Rightarrow> uuid \<Rightarrow> defaults \<Rightarrow> string \<Rightarrow> payload \<Rightarrow> options \<Rightarrow> job_row list \<Rightarrow>
     (error + uuid list) \<times> job_row list" where
  "windowed_outcome server now uid config name dat opts table =
     (case entry_error (ArgsTuple name dat None) of
        Some e \<Rightarrow> (Inl e, table)
      | None \<Rightarrow>
     (case resolve_content opts config of
        Inl e \<Rightarrow> (Inl e, table)
      | Inr v \<Rightarrow>
     (case select_row server now (createJob_values uid name dat (Some v)) of
        Inl e \<Rightarrow> (Inl e, table)
      | Inr r \<Rightarrow>
          if list_ex (\<lambda>x. same_window x r) table then (Inr [], table)
          else (Inr [uid], table @ [r]))))"

section \<open>Verification of the resolver\<close>

subsection \<open>What \<^verbatim>\<open>checkSendArgs\<close> does to the content of the copy\<close>

lemma heap_set_obj [simp]: "heap (set_obj a v w) = (heap w)[a := v]"
  and warned_set_obj [simp]: "warned (set_obj a v w) = warned w"
  and emitted_set_obj [simp]: "emitted (set_obj a v w) = emitted w"
  by (simp_all add: set_obj_def)

lemma heap_emitWarning [simp]: "heap (emitWarning k m f w) = heap w"
  by (simp add: emitWarning_def)

lemma obj_at_emitWarning [simp]: "obj_at (emitWarning k m f w) a = obj_at w a"
  by (simp add: obj_at_def)

lemma resolve_no_name:
  "resolve [] dat optref d w =
     (Inl (AssertionError ''boss requires all jobs to have a queue name''), w)"
  by (simp add: resolve_def)

lemma fst_resolve:
  "name \<noteq> [] \<Longrightarrow>
   fst (resolve name dat optref d w) =
     (case resolve_content (case optref of Some a \<Rightarrow> obj_at w a | None \<Rightarrow> empty_options) d of
        Inl e \<Rightarrow> Inl e
      | Inr v \<Rightarrow> Inr \<lparr> req_name = name, req_data = dat, req_options = Some (length (heap w)) \<rparr>)"
  by (simp add: resolve_def resolve_content_def new_object_def in_place_def
      resolve_start_and_singleton_def applyExpirationConfig_def Let_def obj_at_def set_obj_def
      split: sum.splits)

lemma resolved_resolve:
  "name \<noteq> [] \<Longrightarrow>
   resolved (resolve name dat optref d w) =
     (case resolve_content (case optref of Some a \<Rightarrow> obj_at w a | None \<Rightarrow> empty_options) d of
        Inl e \<Rightarrow> None
      | Inr v \<Rightarrow> Some v)"
  by (simp add: resolved_def resolve_def resolve_content_def new_object_def in_place_def
      resolve_start_and_singleton_def applyExpirationConfig_def Let_def obj_at_def set_obj_def
      split: sum.splits)

lemma fst_checkSendArgs:
  "fst (checkSendArgs args d w) =
     (case entry_error args of
        Some e \<Rightarrow> Inl e
      | None \<Rightarrow>
          (case resolve_content (options_read args w) d of
             Inl e \<Rightarrow> Inl e
           | Inr v \<Rightarrow> Inr \<lparr> req_name = args_name args, req_data = args_data args,
                         req_options = Some (length (heap w)) \<rparr>))"
proof (cases args)
  case (ArgsTuple n dat opt)
  show ?thesis
  proof (cases "n = []")
    case True
    then show ?thesis
      unfolding ArgsTuple
      by (simp add: checkSendArgs_def entry_error_def args_name_def resolve_no_name)
  next
    case False
    then show ?thesis
      unfolding ArgsTuple
      by (cases opt) (simp_all add: checkSendArgs_def entry_error_def args_name_def args_data_def
          options_read_def fst_resolve split: sum.splits)
  qed
next
  case (ArgsRequest job)
  show ?thesis
  proof (cases "req_name job = []")
    case True
    then show ?thesis
      unfolding ArgsRequest
      by (simp add: checkSendArgs_def entry_error_def args_name_def resolve_no_name)
  next
    case False
    then show ?thesis
      unfolding ArgsRequest
      by (simp add: checkSendArgs_def entry_error_def args_name_def args_data_def
          options_read_def fst_resolve split: sum.splits)
  qed
qed

lemma resolved_no_name [simp]: "resolved (resolve [] dat optref d w) = None"
  by (simp add: resolve_no_name resolved_def)

lemma resolved_Inl [simp]: "resolved (Inl e, w) = None"
  by (simp add: resolved_def)

lemma resolved_checkSendArgs:
  "resolved (checkSendArgs args d w) =
     (case entry_error args of
        Some e \<Rightarrow> None
      | None \<Rightarrow>
          (case resolve_content (options_read args w) d of
             Inl e \<Rightarrow> None
           | Inr v \<Rightarrow> Some v))"
proof (cases args)
  case (ArgsTuple n dat opt)
  show ?thesis
  proof (cases "n = []")
    case True
    then show ?thesis
      unfolding ArgsTuple
      by (simp add: checkSendArgs_def entry_error_def args_name_def)
  next
    case False
    then show ?thesis
      unfolding ArgsTuple
      by (cases opt) (simp_all add: checkSendArgs_def entry_error_def args_name_def args_data_def
          options_read_def resolved_resolve)
  qed
next
  case (ArgsRequest job)
  show ?thesis
  proof (cases "req_name job = []")
    case True
    then show ?thesis
      unfolding ArgsRequest
      by (simp add: checkSendArgs_def entry_error_def args_name_def)
  next
    case False
    then show ?thesis
      unfolding ArgsRequest
      by (simp add: checkSendArgs_def entry_error_def args_name_def args_data_def
          options_read_def resolved_resolve)
  qed
qed

lemma applyRetryConfig_Inr:
  "(applyRetryConfig c d = Inr c') = (retry_asserts c = None \<and> c' = retry_corrections (retry_merge c d))"
  by (auto simp add: applyRetryConfig_def split: option.splits)

lemma expiration_checked_Inr:
  "(expiration_checked c d = Inr c') = (expiration_asserts c = None \<and> c' = c\<lparr> expireIn := expireIn_of c d \<rparr>)"
  by (auto simp add: expiration_checked_def split: option.splits)

lemma applyRetentionConfig_Inr:
  "(applyRetentionConfig c d = Inr c') = (retention_asserts c = None \<and> c' = c\<lparr> keepUntil := keepUntil_of c d \<rparr>)"
  by (auto simp add: applyRetentionConfig_def split: option.splits)

lemma applyCompletionConfig_Inr:
  "(applyCompletionConfig c d = Inr c') =
   (completion_asserts c = None \<and>
    c' = (if has (onComplete c) then c
          else c\<lparr> onComplete := (case d of Some d' \<Rightarrow> get (d_onComplete d') | None \<Rightarrow> Val False) \<rparr>))"
  by (auto simp add: applyCompletionConfig_def split: option.splits)

lemma retry_frame [simp]:
  "priority (retry_corrections c) = priority c"
  "startAfter (retry_corrections c) = startAfter c"
  "singletonKey (retry_corrections c) = singletonKey c"
  "useSingletonQueue (retry_corrections c) = useSingletonQueue c"
  "singletonSeconds (retry_corrections c) = singletonSeconds c"
  "singletonMinutes (retry_corrections c) = singletonMinutes c"
  "singletonHours (retry_corrections c) = singletonHours c"
  "singletonNextSlot (retry_corrections c) = singletonNextSlot c"
  "singletonOffset (retry_corrections c) = singletonOffset c"
  "expireInSeconds (retry_corrections c) = expireInSeconds c"
  "expireInMinutes (retry_corrections c) = expireInMinutes c"
  "expireInHours (retry_corrections c) = expireInHours c"
  "expireIn (retry_corrections c) = expireIn c"
  "retentionSeconds (retry_corrections c) = retentionSeconds c"
  "retentionMinutes (retry_corrections c) = retentionMinutes c"
  "retentionHours (retry_corrections c) = retentionHours c"
  "retentionDays (retry_corrections c) = retentionDays c"
  "keepUntil (retry_corrections c) = keepUntil c"
  "onComplete (retry_corrections c) = onComplete c"
  by (simp_all add: retry_corrections_def Let_def)

lemma retry_merge_frame [simp]:
  "priority (retry_merge c d) = priority c"
  "startAfter (retry_merge c d) = startAfter c"
  "singletonKey (retry_merge c d) = singletonKey c"
  "useSingletonQueue (retry_merge c d) = useSingletonQueue c"
  "singletonSeconds (retry_merge c d) = singletonSeconds c"
  "singletonMinutes (retry_merge c d) = singletonMinutes c"
  "singletonHours (retry_merge c d) = singletonHours c"
  "singletonNextSlot (retry_merge c d) = singletonNextSlot c"
  "singletonOffset (retry_merge c d) = singletonOffset c"
  "expireInSeconds (retry_merge c d) = expireInSeconds c"
  "expireInMinutes (retry_merge c d) = expireInMinutes c"
  "expireInHours (retry_merge c d) = expireInHours c"
  "expireIn (retry_merge c d) = expireIn c"
  "retentionSeconds (retry_merge c d) = retentionSeconds c"
  "retentionMinutes (retry_merge c d) = retentionMinutes c"
  "retentionHours (retry_merge c d) = retentionHours c"
  "retentionDays (retry_merge c d) = retentionDays c"
  "keepUntil (retry_merge c d) = keepUntil c"
  "onComplete (retry_merge c d) = onComplete c"
  by (simp_all add: retry_merge_def Let_def split: option.splits)

lemma singletonKey_frame [simp]:
  "priority (applySingletonKeyConfig c) = priority c"
  "startAfter (applySingletonKeyConfig c) = startAfter c"
  "singletonSeconds (applySingletonKeyConfig c) = singletonSeconds c"
  "singletonMinutes (applySingletonKeyConfig c) = singletonMinutes c"
  "singletonHours (applySingletonKeyConfig c) = singletonHours c"
  "singletonNextSlot (applySingletonKeyConfig c) = singletonNextSlot c"
  "singletonOffset (applySingletonKeyConfig c) = singletonOffset c"
  "expireInSeconds (applySingletonKeyConfig c) = expireInSeconds c"
  "expireInMinutes (applySingletonKeyConfig c) = expireInMinutes c"
  "expireInHours (applySingletonKeyConfig c) = expireInHours c"
  "expireIn (applySingletonKeyConfig c) = expireIn c"
  "retentionSeconds (applySingletonKeyConfig c) = retentionSeconds c"
  "retentionMinutes (applySingletonKeyConfig c) = retentionMinutes c"
  "retentionHours (applySingletonKeyConfig c) = retentionHours c"
  "retentionDays (applySingletonKeyConfig c) = retentionDays c"
  "keepUntil (applySingletonKeyConfig c) = keepUntil c"
  "retryLimit (applySingletonKeyConfig c) = retryLimit c"
  "retryDelay (applySingletonKeyConfig c) = retryDelay c"
  "retryBackoff (applySingletonKeyConfig c) = retryBackoff c"
  "onComplete (applySingletonKeyConfig c) = onComplete c"
  by (simp_all add: applySingletonKeyConfig_def Let_def)

lemma retry_merge_priority [simp]:
  "retryDelay (retry_merge (c\<lparr> priority := p \<rparr>) d) = retryDelay (retry_merge c d)"
  "retryLimit (retry_merge (c\<lparr> priority := p \<rparr>) d) = retryLimit (retry_merge c d)"
  "retryBackoff (retry_merge (c\<lparr> priority := p \<rparr>) d) = retryBackoff (retry_merge c d)"
  by (simp_all add: retry_merge_def Let_def split: option.splits)

lemma retry_corrections_cong:
  "retryDelay a = retryDelay b \<Longrightarrow> retryLimit a = retryLimit b \<Longrightarrow> retryBackoff a = retryBackoff b \<Longrightarrow>
   retryDelay (retry_corrections a) = retryDelay (retry_corrections b) \<and>
   retryLimit (retry_corrections a) = retryLimit (retry_corrections b) \<and>
   retryBackoff (retry_corrections a) = retryBackoff (retry_corrections b)"
  by (simp add: retry_corrections_def Let_def)

lemma asserts_frame [simp]:
  "retry_asserts (c\<lparr> priority := p \<rparr>) = retry_asserts c"
  "expiration_asserts (retry_corrections c) = expiration_asserts c"
  "expiration_asserts (retry_merge c d) = expiration_asserts c"
  "expiration_asserts (c\<lparr> priority := p \<rparr>) = expiration_asserts c"
  "retention_asserts (retry_corrections c) = retention_asserts c"
  "retention_asserts (retry_merge c d) = retention_asserts c"
  "retention_asserts (c\<lparr> priority := p \<rparr>) = retention_asserts c"
  "retention_asserts (c\<lparr> expireIn := e \<rparr>) = retention_asserts c"
  "completion_asserts (retry_corrections c) = completion_asserts c"
  "completion_asserts (retry_merge c d) = completion_asserts c"
  "completion_asserts (c\<lparr> priority := p \<rparr>) = completion_asserts c"
  "completion_asserts (c\<lparr> expireIn := e \<rparr>) = completion_asserts c"
  "completion_asserts (c\<lparr> keepUntil := k \<rparr>) = completion_asserts c"
  by (simp_all add: retry_asserts_def expiration_asserts_def retention_asserts_def completion_asserts_def)

lemma of_frame [simp]:
  "expireIn_of (retry_corrections c) d = expireIn_of c d"
  "expireIn_of (retry_merge c d') d = expireIn_of c d"
  "expireIn_of (c\<lparr> priority := p \<rparr>) d = expireIn_of c d"
  "keepUntil_of (retry_corrections c) d = keepUntil_of c d"
  "keepUntil_of (retry_merge c d') d = keepUntil_of c d"
  "keepUntil_of (c\<lparr> priority := p \<rparr>) d = keepUntil_of c d"
  "keepUntil_of (c\<lparr> expireIn := e \<rparr>) d = keepUntil_of c d"
  by (simp_all add: expireIn_of_def keepUntil_of_def)

lemma resolve_content_Inr:
  assumes "resolve_content opts d = Inr v"
  shows "\<not> has (priority opts) \<or> Number_isInteger (priority opts)"
    and "retry_asserts opts = None"
    and "expiration_asserts opts = None"
    and "retention_asserts opts = None"
    and "completion_asserts opts = None"
    and "startAfter_of (get (startAfter opts)) = Inr (startAfter v)"
    and "archive_check (get (singletonSeconds opts)) d"
    and "singletonSeconds v = singletonSeconds_of (get (singletonSeconds opts))
           (get (singletonMinutes opts)) (get (singletonHours opts))"
    and "expireIn v = expireIn_of opts (Some d)"
    and "keepUntil v = keepUntil_of opts (Some d)"
    and "priority v = or_num (get (priority opts)) (Val 0)"
    and "retryDelay v = retryDelay (retry_corrections (retry_merge opts (Some d)))"
    and "retryLimit v = retryLimit (retry_corrections (retry_merge opts (Some d)))"
    and "retryBackoff v = retryBackoff (retry_corrections (retry_merge opts (Some d)))"
  using assms retry_corrections_cong [of "retry_merge (opts\<lparr> priority := or_num (get (priority opts)) (Val 0) \<rparr>) (Some d)" "retry_merge opts (Some d)"]
  by (auto simp add: resolve_content_def applyRetryConfig_Inr expiration_checked_Inr
      applyRetentionConfig_Inr applyCompletionConfig_Inr Let_def
      split: if_splits sum.splits)

lemma startAfter_of_Inl: "(startAfter_of sa = Inl e) = (sa = Val (SADate None) \<and> e = RangeError ''Invalid time value'')"
  by (auto simp add: startAfter_of_def split: slot.splits start_after.splits option.splits)




lemma asserts_validation:
  "retry_asserts c = Some e \<Longrightarrow> is_validation_error e"
  "expiration_asserts c = Some e \<Longrightarrow> is_validation_error e"
  "retention_asserts c = Some e \<Longrightarrow> is_validation_error e"
  "completion_asserts c = Some e \<Longrightarrow> is_validation_error e"
  by (auto simp add: retry_asserts_def expiration_asserts_def retention_asserts_def
      completion_asserts_def split: if_splits)

lemma resolve_content_Inl:
  assumes "resolve_content opts d = Inl e"
  shows "is_validation_error e"
  using assms
  by (auto simp add: resolve_content_def applyRetryConfig_def expiration_checked_def
      applyRetentionConfig_def applyCompletionConfig_def Let_def startAfter_of_Inl
      asserts_validation
      split: if_splits sum.splits option.splits)

lemma entry_error_validation: "entry_error args = Some e \<Longrightarrow> is_validation_error e"
  by (auto simp add: entry_error_def split: if_splits)

lemma checkSendArgs_Inl:
  "fst (checkSendArgs args d w) = Inl e \<Longrightarrow> is_validation_error e"
  by (auto simp add: fst_checkSendArgs entry_error_validation resolve_content_Inl
      split: option.splits sum.splits)

lemma checkSendArgs_fails_or_resolves:
  "(\<exists>e. fst (checkSendArgs args d w) = Inl e \<and> is_validation_error e \<and>
        resolved (checkSendArgs args d w) = None) \<or>
   (\<exists>r v. fst (checkSendArgs args d w) = Inr r \<and> resolved (checkSendArgs args d w) = Some v)"
  using checkSendArgs_Inl [of args d w]
  by (auto simp add: fst_checkSendArgs resolved_checkSendArgs split: option.splits sum.splits)

lemma resolved_Some:
  "(resolved (checkSendArgs args d w) = Some v) =
   (entry_error args = None \<and> resolve_content (options_read args w) d = Inr v)"
  by (auto simp add: resolved_checkSendArgs split: option.splits sum.splits)

lemma template_num_Val: "num_ge p k \<Longrightarrow> template_num p = Number_toString (the_num p)"
  by (simp add: num_ge_def template_num_def the_num_def split: slot.splits)

lemma expiration_asserts_None:
  "(expiration_asserts c = None) =
   ((has (expireInSeconds c) \<longrightarrow> num_ge (expireInSeconds c) 1) \<and>
    (has (expireInMinutes c) \<longrightarrow> num_ge (expireInMinutes c) 1) \<and>
    (has (expireInHours c) \<longrightarrow> num_ge (expireInHours c) 1))"
  by (auto simp add: expiration_asserts_def num_ge_def truthy_num_def split: slot.splits)




lemma resolve_content_flat:
  "resolve_content opts d =
     (if \<not> (\<not> has (priority opts) \<or> Number_isInteger (priority opts))
      then Inl (AssertionError ''priority must be an integer'')
      else case retry_asserts opts of Some e \<Rightarrow> Inl e | None \<Rightarrow>
        (case expiration_asserts opts of Some e \<Rightarrow> Inl e | None \<Rightarrow>
        (case retention_asserts opts of Some e \<Rightarrow> Inl e | None \<Rightarrow>
        (case completion_asserts opts of Some e \<Rightarrow> Inl e | None \<Rightarrow>
        (case startAfter_of (get (startAfter opts)) of Inl e \<Rightarrow> Inl e | Inr sa \<Rightarrow>
           if \<not> archive_check (get (singletonSeconds opts)) d
           then Inl (AssertionError (archive_message (get (singletonSeconds opts)) d))
           else Inr (assigned opts d sa))))))"
  by (simp add: resolve_content_def applyRetryConfig_def expiration_checked_def
      applyRetentionConfig_def applyCompletionConfig_def Let_def assigned_def
      split: option.splits sum.splits)

lemma archiveSeconds_not_read [simp]:
  "retry_merge c (Some (d\<lparr> d_archiveSeconds := x \<rparr>)) = retry_merge c (Some d)"
  "expireIn_of c (Some (d\<lparr> d_archiveSeconds := x \<rparr>)) = expireIn_of c (Some d)"
  "keepUntil_of c (Some (d\<lparr> d_archiveSeconds := x \<rparr>)) = keepUntil_of c (Some d)"
  by (simp_all add: retry_merge_def expireIn_of_def keepUntil_of_def)

lemma assigned_archiveSeconds [simp]:
  "assigned opts (d\<lparr> d_archiveSeconds := x \<rparr>) sa = assigned opts d sa"
  by (simp add: assigned_def Let_def)

lemma resolve_content_archiveSeconds:
  assumes "\<not> truthy_num_null (get (singletonSeconds opts))"
  shows "resolve_content opts (d\<lparr> d_archiveSeconds := x \<rparr>) = resolve_content opts d"
  using assms
  by (simp add: resolve_content_flat archive_check_def split: option.splits sum.splits)

subsection \<open>The singleton window in seconds\<close>

text \<open>
  C1.  The claim: supplying only \<^verbatim>\<open>singletonSeconds = s\<close> with \<open>s > 0\<close> resolves to
  \<^verbatim>\<open>singletonSeconds = s\<close>.  The code multiplies by 60 on this path too (line 145):
  for the options \<^verbatim>\<open>{ singletonSeconds: 10 }\<close> and an archive interval of 3600 seconds
  the resolved value is 600, not 10.
\<close>

theorem C1_seconds_path_multiplies_by_60:
  "map_option singletonSeconds
     (resolved (checkSendArgs (ArgsTuple ''q'' DataUndefined (Some 0))
        (empty_defaults\<lparr> d_archiveSeconds := Val 3600 \<rparr>)
        (world_with [empty_options\<lparr> singletonSeconds := Val (Some 10) \<rparr>]))) =
   Some (Val (Some 600))"
  by code_simp

subsection \<open>Retry options\<close>

text \<open>
  C4.  The claim: options with \<^verbatim>\<open>retryDelay = 0\<close>, \<^verbatim>\<open>retryBackoff = false\<close> and no
  \<^verbatim>\<open>retryLimit\<close> are accepted.  The assertion of line 486 requires the value of
  \<^verbatim>\<open>retryDelay\<close> to be truthy, which 0 is not: the call throws the error whose message
  says that \<^verbatim>\<open>retryDelay\<close> must be an integer \<^verbatim>\<open>>= 0\<close>.
\<close>

theorem C4_retryDelay_zero_is_rejected:
  "fst (checkSendArgs (ArgsTuple ''q'' DataUndefined (Some 0)) empty_defaults
          (world_with [empty_options\<lparr> retryDelay := Val 0, retryBackoff := Val False \<rparr>])) =
   Inl (AssertionError ''retryDelay must be an integer >= 0'')"
  by code_simp

lemma retry_corrections_delay:
  "truthy_bool (retryBackoff m) \<Longrightarrow> \<not> truthy_num (retryDelay m) \<Longrightarrow>
   retryDelay (retry_corrections m) = Val 1"
  by (simp add: retry_corrections_def Let_def or_num_def truthy_bool_def truthy_num_def get_def
      split: slot.splits)

lemma retry_corrections_limit:
  "truthy_num (retryDelay (retry_corrections m)) \<Longrightarrow> \<not> truthy_num (retryLimit m) \<Longrightarrow>
   retryLimit (retry_corrections m) = Val 1"
  by (simp add: retry_corrections_def Let_def or_num_def truthy_bool_def truthy_num_def get_def
      split: slot.splits if_splits)

text \<open>
  The caller's retry options are merged with the defaults by lines 507 to 511
  (\<^const>\<open>retry_merge\<close>).  Whenever resolution succeeds: if the merged
  \<^verbatim>\<open>retryBackoff\<close> is true and the merged \<^verbatim>\<open>retryDelay\<close> is unset or zero, the resolved
  \<^verbatim>\<open>retryDelay\<close> is 1; and if the resolved \<^verbatim>\<open>retryDelay\<close> is not zero and the merged
  \<^verbatim>\<open>retryLimit\<close> is unset or zero, the resolved \<^verbatim>\<open>retryLimit\<close> is 1.
\<close>

lemma retry_corrections_when_resolved:
  assumes "resolved (checkSendArgs args d w) = Some v"
  shows "(truthy_bool (retryBackoff (retry_merge (options_read args w) (Some d))) \<and>
          \<not> truthy_num (retryDelay (retry_merge (options_read args w) (Some d)))
            \<longrightarrow> retryDelay v = Val 1) \<and>
         (truthy_num (retryDelay v) \<and>
          \<not> truthy_num (retryLimit (retry_merge (options_read args w) (Some d)))
            \<longrightarrow> retryLimit v = Val 1)"
proof -
  from assms have r: "resolve_content (options_read args w) d = Inr v"
    by (simp add: resolved_Some)
  show ?thesis
    using resolve_content_Inr(12,13) [OF r]
      retry_corrections_delay [of "retry_merge (options_read args w) (Some d)"]
      retry_corrections_limit [of "retry_merge (options_read args w) (Some d)"]
    by simp
qed

text \<open>
  C5.  The claim: when the merged \<^verbatim>\<open>retryBackoff\<close> is true and the merged \<^verbatim>\<open>retryDelay\<close>
  is unset or zero, the resolved \<^verbatim>\<open>retryDelay\<close> is 1; when the resulting \<^verbatim>\<open>retryDelay\<close> is
  not zero and the merged \<^verbatim>\<open>retryLimit\<close> is unset or zero, the resolved \<^verbatim>\<open>retryLimit\<close> is
  1.  Lines 513 to 519 do that, but a zero that the caller supplies does not reach
  them: the assertions of lines 486 to 499 require a supplied \<^verbatim>\<open>retryDelay\<close> or
  \<^verbatim>\<open>retryLimit\<close> to be truthy.  For \<^verbatim>\<open>{ retryBackoff: true, retryDelay: 0 }\<close> and for
  \<^verbatim>\<open>{ retryDelay: 5, retryLimit: 0 }\<close> the call throws instead of resolving the zero
  to 1.
\<close>

theorem C5_supplied_zero_is_rejected:
  "fst (checkSendArgs (ArgsTuple ''q'' DataUndefined (Some 0)) empty_defaults
          (world_with [empty_options\<lparr> retryBackoff := Val True, retryDelay := Val 0 \<rparr>])) =
     Inl (AssertionError ''retryDelay must be an integer >= 0'') \<and>
   fst (checkSendArgs (ArgsTuple ''q'' DataUndefined (Some 0)) empty_defaults
          (world_with [empty_options\<lparr> retryDelay := Val 5, retryLimit := Val 0 \<rparr>])) =
     Inl (AssertionError ''retryLimit must be an integer >= 0'')"
  by code_simp

subsection \<open>Expiration\<close>

text \<open>
  C6, as amended, for a call with a tuple \<^verbatim>\<open>[name, data, options]\<close>.  When resolution
  succeeds, the resolved \<^verbatim>\<open>expireIn\<close> is the text of \<^verbatim>\<open>expireInHours\<close> followed by
  \<^verbatim>\<open>" hours"\<close> if that key is present in the options, else that of \<^verbatim>\<open>expireInMinutes\<close>
  and \<^verbatim>\<open>" minutes"\<close>, else that of \<^verbatim>\<open>expireInSeconds\<close> and \<^verbatim>\<open>" seconds"\<close>; when none of
  the three is present it is the \<^verbatim>\<open>expireIn\<close> of the defaults, which is \<^verbatim>\<open>undefined\<close> when
  the defaults have none.  A unit that is present and not at least 1 makes resolution
  fail with a validation error.
\<close>

theorem C6_expireIn_priority_chain:
  assumes "args = ArgsTuple name dat optref"
    and "opts = (case optref of Some a \<Rightarrow> obj_at w a | None \<Rightarrow> empty_options)"
  shows "(resolved (checkSendArgs args d w) = Some v \<longrightarrow>
            expireIn v =
              (if has (expireInHours opts)
               then Val (Number_toString (the_num (expireInHours opts)) @ '' hours'')
               else if has (expireInMinutes opts)
               then Val (Number_toString (the_num (expireInMinutes opts)) @ '' minutes'')
               else if has (expireInSeconds opts)
               then Val (Number_toString (the_num (expireInSeconds opts)) @ '' seconds'')
               else get (d_expireIn d))) \<and>
         ((has (expireInHours opts) \<and> \<not> num_ge (expireInHours opts) 1) \<or>
          (has (expireInMinutes opts) \<and> \<not> num_ge (expireInMinutes opts) 1) \<or>
          (has (expireInSeconds opts) \<and> \<not> num_ge (expireInSeconds opts) 1) \<longrightarrow>
            (\<exists>e. fst (checkSendArgs args d w) = Inl e \<and> is_validation_error e))"
proof -
  have read: "opts = options_read args w"
    by (simp add: assms options_read_def split: option.splits)
  show ?thesis
  proof (intro conjI impI)
    assume r: "resolved (checkSendArgs args d w) = Some v"
    then have c: "resolve_content opts d = Inr v"
      by (simp add: resolved_Some read)
    from resolve_content_Inr(3) [OF c]
    have ok: "has (expireInSeconds opts) \<longrightarrow> num_ge (expireInSeconds opts) 1"
        "has (expireInMinutes opts) \<longrightarrow> num_ge (expireInMinutes opts) 1"
        "has (expireInHours opts) \<longrightarrow> num_ge (expireInHours opts) 1"
      by (simp_all add: expiration_asserts_None)
    from resolve_content_Inr(9) [OF c] ok
    show "expireIn v =
                (if has (expireInHours opts)
                 then Val (Number_toString (the_num (expireInHours opts)) @ '' hours'')
                 else if has (expireInMinutes opts)
                 then Val (Number_toString (the_num (expireInMinutes opts)) @ '' minutes'')
                 else if has (expireInSeconds opts)
                 then Val (Number_toString (the_num (expireInSeconds opts)) @ '' seconds'')
                 else get (d_expireIn d))"
      by (auto simp add: expireIn_of_def template_num_Val)
  next
    assume bad: "(has (expireInHours opts) \<and> \<not> num_ge (expireInHours opts) 1) \<or>
            (has (expireInMinutes opts) \<and> \<not> num_ge (expireInMinutes opts) 1) \<or>
            (has (expireInSeconds opts) \<and> \<not> num_ge (expireInSeconds opts) 1)"
    then have "expiration_asserts opts \<noteq> None"
      by (auto simp add: expiration_asserts_None)
    then have "resolved (checkSendArgs args d w) = None"
      using resolve_content_Inr(3) [of opts d]
      by (cases "resolved (checkSendArgs args d w)") (auto simp add: resolved_Some read)
    then show "\<exists>e. fst (checkSendArgs args d w) = Inl e \<and> is_validation_error e"
      using checkSendArgs_fails_or_resolves [of args d w] by auto
  qed
qed

theorem C6_expireIn_priority_chain_witness:
  "\<exists>v. resolved (checkSendArgs (ArgsTuple ''q'' DataUndefined (Some 0)) empty_defaults
            (world_with [empty_options\<lparr> expireInHours := Val 1, expireInMinutes := Val 90 \<rparr>])) = Some v \<and>
        expireIn v = Val ''1 hours''"
proof -
  let ?w = "world_with [empty_options\<lparr> expireInHours := Val 1, expireInMinutes := Val 90 \<rparr>]"
  let ?args = "ArgsTuple ''q'' DataUndefined (Some 0)"
  let ?opts = "options_read ?args ?w"
  have "resolved (checkSendArgs ?args empty_defaults ?w) \<noteq> None"
    by code_simp
  then obtain v where v: "resolved (checkSendArgs ?args empty_defaults ?w) = Some v"
    by blast
  have h: "has (expireInHours ?opts)" "Number_toString (the_num (expireInHours ?opts)) = ''1''"
    by code_simp+
  have read: "?opts = (case Some (0::addr) of Some a \<Rightarrow> obj_at ?w a | None \<Rightarrow> empty_options)"
    by (simp add: options_read_def)
  from C6_expireIn_priority_chain [where w = ?w and d = empty_defaults and v = v, OF refl read] v h
  have "expireIn v = Val ''1 hours''" by simp
  with v show ?thesis by blast
qed

text \<open>
  C6 as claimed ends the chain with \<^verbatim>\<open>"15 minutes"\<close>.  \<^verbatim>\<open>checkSendArgs\<close> always passes a
  defaults object, so that branch of line 477 is never taken: with a configuration
  that has no \<^verbatim>\<open>expireIn\<close> the resolved value is \<^verbatim>\<open>undefined\<close>.
\<close>

theorem C6_no_default_gives_undefined:
  "map_option expireIn
     (resolved (checkSendArgs (ArgsTuple ''q'' DataUndefined (Some 0)) empty_defaults
        (world_with [empty_options]))) = Some Undefined"
  by code_simp

subsection \<open>The archive interval\<close>


text \<open>
  The condition of that assertion on the value \<open>s\<close> that the caller gave and the
  \<^verbatim>\<open>archiveSeconds\<close> of the defaults, written out.
\<close>

lemma archive_check_iff:
  "archive_check (get (singletonSeconds opts)) d =
     (\<forall>s. singletonSeconds opts = Val (Some s) \<longrightarrow>
        s = 0 \<or> (\<exists>a. d_archiveSeconds d = Val a \<and> a \<noteq> 0 \<and> s \<le> a))"
  by (auto simp add: archive_check_def get_def truthy_num_null_def truthy_num_def
      the_num_null_def the_num_def split: slot.splits option.splits)





text \<open>
  For the options that are read: a positive \<^verbatim>\<open>singletonSeconds\<close> fails with a validation
  error unless the defaults have a truthy \<^verbatim>\<open>archiveSeconds\<close> that it does not exceed; in
  particular it fails whenever the defaults have no \<^verbatim>\<open>archiveSeconds\<close>.  When
  \<^verbatim>\<open>singletonSeconds\<close> is not given (or is null or zero), as for a window given only in
  minutes or hours, the outcome does not depend on \<^verbatim>\<open>archiveSeconds\<close> at all.
\<close>

lemma archive_bound_on_raw_seconds_only:
  assumes "opts = options_read args w"
  shows "(singletonSeconds opts = Val (Some s) \<and> 0 < s \<and>
          \<not> (truthy_num (d_archiveSeconds d) \<and> s \<le> the_num (d_archiveSeconds d)) \<longrightarrow>
            (\<exists>e. fst (checkSendArgs args d w) = Inl e \<and> is_validation_error e)) \<and>
         (singletonSeconds opts = Val (Some s) \<and> 0 < s \<and> \<not> has (d_archiveSeconds d) \<longrightarrow>
            (\<exists>e. fst (checkSendArgs args d w) = Inl e \<and> is_validation_error e)) \<and>
         (\<not> truthy_num_null (singletonSeconds opts) \<longrightarrow>
            fst (checkSendArgs args (d\<lparr> d_archiveSeconds := x \<rparr>) w) = fst (checkSendArgs args d w) \<and>
            resolved (checkSendArgs args (d\<lparr> d_archiveSeconds := x \<rparr>) w) =
              resolved (checkSendArgs args d w))"
proof -
  have fails: "\<exists>e. fst (checkSendArgs args d w) = Inl e \<and> is_validation_error e"
    if "singletonSeconds opts = Val (Some s)" and "0 < s"
      and "\<not> (truthy_num (d_archiveSeconds d) \<and> s \<le> the_num (d_archiveSeconds d))"
  proof -
    have n: "\<not> archive_check (get (singletonSeconds opts)) d"
      using that by (simp add: archive_check_def get_def truthy_num_null_def the_num_null_def)
    have "resolved (checkSendArgs args d w) = None"
    proof (cases "resolved (checkSendArgs args d w)")
      case (Some v)
      then have "resolve_content opts d = Inr v"
        by (simp add: resolved_Some assms)
      from resolve_content_Inr(7) [OF this] n show ?thesis by simp
    qed simp
    then show ?thesis
      using checkSendArgs_fails_or_resolves [of args d w] by auto
  qed
  have same: "fst (checkSendArgs args (d\<lparr> d_archiveSeconds := x \<rparr>) w) = fst (checkSendArgs args d w) \<and>
            resolved (checkSendArgs args (d\<lparr> d_archiveSeconds := x \<rparr>) w) =
              resolved (checkSendArgs args d w)"
    if "\<not> truthy_num_null (singletonSeconds opts)"
  proof -
    from that have "\<not> truthy_num_null (get (singletonSeconds opts))"
      by (simp add: truthy_num_null_def get_def split: slot.splits)
    then have "resolve_content opts (d\<lparr> d_archiveSeconds := x \<rparr>) = resolve_content opts d"
      by (rule resolve_content_archiveSeconds)
    then show ?thesis
      by (simp add: fst_checkSendArgs resolved_checkSendArgs assms split: option.splits)
  qed
  have absent: "\<not> (truthy_num (d_archiveSeconds d) \<and> s \<le> the_num (d_archiveSeconds d))"
    if "\<not> has (d_archiveSeconds d)"
    using that by (simp add: has_def truthy_num_def)
  show ?thesis
  proof (intro conjI impI)
    assume "singletonSeconds opts = Val (Some s) \<and> 0 < s \<and>
          \<not> (truthy_num (d_archiveSeconds d) \<and> s \<le> the_num (d_archiveSeconds d))"
    then show "\<exists>e. fst (checkSendArgs args d w) = Inl e \<and> is_validation_error e"
      using fails by blast
  next
    assume "singletonSeconds opts = Val (Some s) \<and> 0 < s \<and> \<not> has (d_archiveSeconds d)"
    then show "\<exists>e. fst (checkSendArgs args d w) = Inl e \<and> is_validation_error e"
      using fails absent by blast
  next
    assume "\<not> truthy_num_null (singletonSeconds opts)"
    then show "fst (checkSendArgs args (d\<lparr> d_archiveSeconds := x \<rparr>) w) = fst (checkSendArgs args d w)"
      using same by blast
  next
    assume "\<not> truthy_num_null (singletonSeconds opts)"
    then show "resolved (checkSendArgs args (d\<lparr> d_archiveSeconds := x \<rparr>) w) =
              resolved (checkSendArgs args d w)"
      using same by blast
  qed
qed

text \<open>
  C10.  The claim: every request that supplies a positive \<^verbatim>\<open>singletonSeconds\<close> fails
  unless the defaults have a truthy \<^verbatim>\<open>archiveSeconds\<close> that it does not exceed.  That
  holds for the options of a tuple.  The options of a request object are never read:
  line 97 tests \<^verbatim>\<open>typeof args[0]\<close>, which is \<^verbatim>\<open>"undefined"\<close> for a request object, so the
  branch of lines 98 to 104 that reads \<^verbatim>\<open>job.options\<close> is skipped and line 106 takes the
  name only.  The request \<^verbatim>\<open>{ name: "q", options: { singletonSeconds: 10 } }\<close> with
  defaults that have no \<^verbatim>\<open>archiveSeconds\<close> is accepted, and resolves to no window.
\<close>

theorem C10_request_object_options_not_read:
  "map_option singletonSeconds
     (resolved (checkSendArgs
        (ArgsRequest \<lparr> req_name = ''q'', req_data = DataUndefined, req_options = Some 0 \<rparr>)
        empty_defaults
        (world_with [empty_options\<lparr> singletonSeconds := Val (Some 10) \<rparr>]))) =
   Some (Val None)"
  by code_simp

subsection \<open>The caller's objects\<close>

lemma grown_refl [simp]: "grown h h"
  by (simp add: grown_def)

lemma grown_trans: "grown h h' \<Longrightarrow> grown h' h'' \<Longrightarrow> grown h h''"
  by (auto simp add: grown_def)

lemma grown_append [simp]: "grown h (h @ new)"
  by (auto simp add: grown_def)

lemma grown_update: "grown h h' \<Longrightarrow> length h \<le> c \<Longrightarrow> grown h (h'[c := v])"
  by (auto simp add: grown_def list_update_append)

lemma grown_nth: "grown h h' \<Longrightarrow> a < length h \<Longrightarrow> h' ! a = h ! a"
  by (auto simp add: grown_def nth_append)

lemma grown_length: "grown h h' \<Longrightarrow> length h \<le> length h'"
  by (auto simp add: grown_def)

lemma in_sequence_grown:
  assumes "\<And>step w. step \<in> set steps \<Longrightarrow> grown h (heap w) \<Longrightarrow> grown h (heap (snd (step w)))"
    and "grown h (heap w)"
  shows "grown h (heap (snd (in_sequence steps w)))"
  using assms
proof (induction steps arbitrary: w)
  case Nil
  then show ?case by simp
next
  case (Cons step steps)
  have s: "grown h (heap (snd (step w)))"
    using Cons.prems by simp
  show ?case
  proof (cases "step w")
    case (Pair e w')
    with s have w': "grown h (heap w')" by simp
    show ?thesis
    proof (cases e)
      case None
      with Pair Cons.IH [of w'] Cons.prems(1) w' show ?thesis by simp
    next
      case (Some err)
      with Pair w' show ?thesis by simp
    qed
  qed
qed

lemma in_place_grown:
  fixes w :: world
  shows "grown h (heap w) \<Longrightarrow> length h \<le> c \<Longrightarrow> grown h (heap (snd (in_place c f w)))"
  by (simp add: in_place_def grown_update split: sum.splits)

lemma expiration_step_grown:
  fixes w :: world
  shows "grown h (heap w) \<Longrightarrow> length h \<le> c \<Longrightarrow>
   grown h (heap (snd (case applyExpirationConfig (obj_at w c) dd w of
                         (Inl e, w') \<Rightarrow> (Some e, w')
                       | (Inr v, w') \<Rightarrow> (None, set_obj c v w'))))"
  by (simp add: applyExpirationConfig_def Let_def grown_update split: sum.splits)

lemma resolve_start_and_singleton_grown:
  fixes w :: world
  shows "grown h (heap w) \<Longrightarrow> length h \<le> c \<Longrightarrow>
   grown h (heap (snd (resolve_start_and_singleton c d w)))"
  by (simp add: resolve_start_and_singleton_def Let_def grown_update split: sum.splits)

lemma resolve_grown:
  fixes w :: world
  shows "grown (heap w) (heap (snd (resolve name dat optref d w)))"
proof (cases name)
  case Nil
  then show ?thesis by (simp add: resolve_no_name)
next
  case (Cons x xs)
  define opts where "opts = (case optref of Some a \<Rightarrow> obj_at w a | None \<Rightarrow> empty_options)"
  define c where "c = fst (new_object opts w)"
  define w1 where "w1 = snd (new_object opts w)"
  define steps where "steps =
     [ in_place c (\<lambda>opts. Inr (opts\<lparr> priority := or_num (get (priority opts)) (Val 0) \<rparr>)),
       in_place c (\<lambda>opts. applyRetryConfig opts (Some d)),
       (\<lambda>w. case applyExpirationConfig (obj_at w c) (Some d) w of
               (Inl e, w') \<Rightarrow> (Some e, w')
             | (Inr v, w') \<Rightarrow> (None, set_obj c v w')),
       in_place c (\<lambda>opts. applyRetentionConfig opts (Some d)),
       in_place c (\<lambda>opts. applyCompletionConfig opts (Some d)),
       in_place c (\<lambda>opts. Inr (applySingletonKeyConfig opts)),
       resolve_start_and_singleton c d ]"
  have c: "length (heap w) \<le> c"
    by (simp add: c_def new_object_def)
  have w1: "grown (heap w) (heap w1)"
    by (simp add: w1_def new_object_def)
  have seq: "grown (heap w) (heap (snd (in_sequence steps w1)))"
  proof (rule in_sequence_grown [OF _ w1])
    fix step and w' :: world
    assume "step \<in> set steps" and g: "grown (heap w) (heap w')"
    then consider "\<exists>f. step = in_place c f"
      | "step = (\<lambda>w. case applyExpirationConfig (obj_at w c) (Some d) w of
               (Inl e, w') \<Rightarrow> (Some e, w')
             | (Inr v, w') \<Rightarrow> (None, set_obj c v w'))"
      | "step = resolve_start_and_singleton c d"
      unfolding steps_def by auto
    then show "grown (heap w) (heap (snd (step w')))"
    proof cases
      case 1
      then show ?thesis using in_place_grown [OF g c] by auto
    next
      case 2
      then show ?thesis using expiration_step_grown [OF g c] by simp
    next
      case 3
      then show ?thesis using resolve_start_and_singleton_grown [OF g c] by simp
    qed
  qed
  have "resolve name dat optref d w =
     (if \<not> (\<not> has (priority (obj_at w1 c)) \<or> Number_isInteger (priority (obj_at w1 c)))
      then (Inl (AssertionError ''priority must be an integer''), w1)
      else (case in_sequence steps w1 of
              (Some e, w') \<Rightarrow> (Inl e, w')
            | (None, w') \<Rightarrow>
                (Inr \<lparr> req_name = name, req_data = dat, req_options = Some c \<rparr>, w')))"
    unfolding resolve_def Let_def split_beta opts_def c_def w1_def steps_def Cons
    by (simp only: list.distinct if_False)
  then show ?thesis
    using seq w1 by (simp split: prod.splits option.splits)
qed

lemma checkSendArgs_grown:
  fixes w :: world
  shows "grown (heap w) (heap (snd (checkSendArgs args d w)))"
  by (simp add: checkSendArgs_def resolve_grown split: send_args.splits)

lemma checkInsertArgs_map_grown:
  fixes w :: world
  shows "grown (heap w) (heap (snd (checkInsertArgs_map jobs w)))"
proof (induction jobs arbitrary: w)
  case Nil
  then show ?case by simp
next
  case (Cons job jobs)
  define w1 where "w1 = snd (new_object (obj_at w job) w)"
  define w2 where "w2 = set_obj (fst (new_object (obj_at w job) w))
                          (applySingletonKeyConfig (obj_at w1 (fst (new_object (obj_at w job) w)))) w1"
  have "grown (heap w) (heap w2)"
    by (simp add: w2_def w1_def new_object_def)
  from grown_trans [OF this Cons.IH [of w2]]
  show ?case
    by (simp add: split_beta Let_def w2_def w1_def)
qed

lemma checkInsertArgs_grown:
  fixes w :: world
  shows "grown (heap w) (heap (snd (checkInsertArgs jobs w)))"
  using checkInsertArgs_map_grown [of w jobs]
  by (simp add: checkInsertArgs_def split_beta)

text \<open>
  C8.  After \<^verbatim>\<open>checkSendArgs\<close> or \<^verbatim>\<open>checkInsertArgs\<close> has returned or thrown, the heap
  is the heap before the call followed by new objects: every object that existed
  before the call, the caller's options among them, has the content it had.  All
  assignments go to the copies made at line 114 and line 163.
\<close>

theorem C8_caller_options_not_mutated:
  fixes w :: world
  shows "grown (heap w) (heap (snd (checkSendArgs args d w))) \<and>
   grown (heap w) (heap (snd (checkInsertArgs jobs w))) \<and>
   (a < length (heap w) \<longrightarrow>
      obj_at (snd (checkSendArgs args d w)) a = obj_at w a \<and>
      obj_at (snd (checkInsertArgs jobs w)) a = obj_at w a)"
proof -
  have s: "grown (heap w) (heap (snd (checkSendArgs args d w)))"
    by (rule checkSendArgs_grown)
  have i: "grown (heap w) (heap (snd (checkInsertArgs jobs w)))"
    by (rule checkInsertArgs_grown)
  have same: "obj_at w' a = obj_at w a"
    if g: "grown (heap w) (heap w')" and a: "a < length (heap w)" for w' :: world
    using grown_nth [OF g a] grown_length [OF g] a by (simp add: obj_at_def)
  from s i same [OF s] same [OF i] show ?thesis by blast
qed

theorem C8_caller_options_not_mutated_witness:
  "obj_at (snd (checkSendArgs (ArgsTuple ''q'' DataUndefined (Some 0)) empty_defaults
                 (world_with [empty_options\<lparr> retryBackoff := Val True, useSingletonQueue := Val True \<rparr>]))) 0 =
     empty_options\<lparr> retryBackoff := Val True, useSingletonQueue := Val True \<rparr> \<and>
   obj_at (snd (checkInsertArgs [0]
                 (world_with [empty_options\<lparr> retryBackoff := Val True, useSingletonQueue := Val True \<rparr>]))) 0 =
     empty_options\<lparr> retryBackoff := Val True, useSingletonQueue := Val True \<rparr>"
proof -
  let ?o = "empty_options\<lparr> retryBackoff := Val True, useSingletonQueue := Val True \<rparr>"
  have "(0::nat) < length (heap (world_with [?o]))" and "obj_at (world_with [?o]) 0 = ?o"
    by (simp_all add: world_with_def obj_at_def)
  with C8_caller_options_not_mutated [of "world_with [?o]" "ArgsTuple ''q'' DataUndefined (Some 0)"
         empty_defaults "[0]" 0]
  show ?thesis by simp
qed

subsection \<open>Warnings\<close>

lemma warning_code_inj [simp]: "(warning_code k = warning_code k') = (k = k')"
  by (cases k; cases k') simp_all

lemma times_emitted_emitWarning:
  "times_emitted k (emitWarning k' m f w) =
     times_emitted k w + (if (f \<or> \<not> warned w k') \<and> k' = k then 1 else 0)"
  by (auto simp add: times_emitted_def emitWarning_def)

lemma warned_once_heap [simp]:
  "warned_once n (w\<lparr> heap := h \<rparr>) = warned_once n w"
  by (simp add: warned_once_def times_emitted_def)

lemma warned_once_set_obj [simp]: "warned_once n (set_obj a v w) = warned_once n w"
  by (simp add: set_obj_def)

lemma warned_once_new_object [simp]: "warned_once n (snd (new_object v w)) = warned_once n w"
  by (simp add: new_object_def)

lemma warned_once_emit:
  "k \<noteq> CLOCK_SKEW \<Longrightarrow> warned_once n w \<Longrightarrow> warned_once n (emitWarning k m False w)"
  by (auto simp add: warned_once_def times_emitted_emitWarning)
     (auto simp add: emitWarning_def split: if_splits)

lemma warned_once_clock_skew:
  "warned_once n w \<Longrightarrow> warned_once (Suc n) (warnClockSkew m w)"
  by (auto simp add: warned_once_def warnClockSkew_def times_emitted_emitWarning)
     (auto simp add: emitWarning_def split: if_splits)

lemma in_sequence_warned_once:
  assumes "\<And>step w. step \<in> set steps \<Longrightarrow> warned_once n w \<Longrightarrow> warned_once n (snd (step w))"
    and "warned_once n w"
  shows "warned_once n (snd (in_sequence steps w))"
  using assms
proof (induction steps arbitrary: w)
  case Nil
  then show ?case by simp
next
  case (Cons step steps)
  have s: "warned_once n (snd (step w))"
    using Cons.prems by simp
  obtain e w' where p: "step w = (e, w')"
    by (cases "step w")
  with s have w': "warned_once n w'" by simp
  show ?case
  proof (cases e)
    case None
    with p Cons.IH [of w'] Cons.prems(1) w' show ?thesis by simp
  next
    case (Some err)
    with p w' show ?thesis by simp
  qed
qed

lemma in_place_warned_once:
  "warned_once n w \<Longrightarrow> warned_once n (snd (in_place c f w))"
  by (simp add: in_place_def split: sum.splits)

lemma applyExpirationConfig_warned_once:
  "warned_once n w \<Longrightarrow> warned_once n (snd (applyExpirationConfig config dd w))"
  by (simp add: applyExpirationConfig_def Let_def warned_once_emit)

lemma expiration_step_warned_once:
  "warned_once n w \<Longrightarrow>
   warned_once n (snd (case applyExpirationConfig (obj_at w c) dd w of
                         (Inl e, w') \<Rightarrow> (Some e, w')
                       | (Inr v, w') \<Rightarrow> (None, set_obj c v w')))"
  using applyExpirationConfig_warned_once [of n w "obj_at w c" dd]
  by (auto split: prod.splits sum.splits)

lemma resolve_start_and_singleton_warned_once:
  "warned_once n w \<Longrightarrow> warned_once n (snd (resolve_start_and_singleton c d w))"
  by (simp add: resolve_start_and_singleton_def Let_def split: sum.splits)

lemma resolve_warned_once:
  assumes w: "warned_once n w"
  shows "warned_once n (snd (resolve name dat optref d w))"
proof (cases name)
  case Nil
  with w show ?thesis by (simp add: resolve_no_name)
next
  case (Cons x xs)
  define opts where "opts = (case optref of Some a \<Rightarrow> obj_at w a | None \<Rightarrow> empty_options)"
  define c where "c = fst (new_object opts w)"
  define w1 where "w1 = snd (new_object opts w)"
  define steps where "steps =
     [ in_place c (\<lambda>opts. Inr (opts\<lparr> priority := or_num (get (priority opts)) (Val 0) \<rparr>)),
       in_place c (\<lambda>opts. applyRetryConfig opts (Some d)),
       (\<lambda>w. case applyExpirationConfig (obj_at w c) (Some d) w of
               (Inl e, w') \<Rightarrow> (Some e, w')
             | (Inr v, w') \<Rightarrow> (None, set_obj c v w')),
       in_place c (\<lambda>opts. applyRetentionConfig opts (Some d)),
       in_place c (\<lambda>opts. applyCompletionConfig opts (Some d)),
       in_place c (\<lambda>opts. Inr (applySingletonKeyConfig opts)),
       resolve_start_and_singleton c d ]"
  have w1: "warned_once n w1"
    using w by (simp add: w1_def)
  have seq: "warned_once n (snd (in_sequence steps w1))"
  proof (rule in_sequence_warned_once [OF _ w1])
    fix step and w' :: world
    assume "step \<in> set steps" and g: "warned_once n w'"
    then consider "\<exists>f. step = in_place c f"
      | "step = (\<lambda>w. case applyExpirationConfig (obj_at w c) (Some d) w of
               (Inl e, w') \<Rightarrow> (Some e, w')
             | (Inr v, w') \<Rightarrow> (None, set_obj c v w'))"
      | "step = resolve_start_and_singleton c d"
      unfolding steps_def by auto
    then show "warned_once n (snd (step w'))"
    proof cases
      case 1
      then show ?thesis using in_place_warned_once [OF g] by auto
    next
      case 2
      then show ?thesis using expiration_step_warned_once [OF g] by simp
    next
      case 3
      then show ?thesis using resolve_start_and_singleton_warned_once [OF g] by simp
    qed
  qed
  have "resolve name dat optref d w =
     (if \<not> (\<not> has (priority (obj_at w1 c)) \<or> Number_isInteger (priority (obj_at w1 c)))
      then (Inl (AssertionError ''priority must be an integer''), w1)
      else (case in_sequence steps w1 of
              (Some e, w') \<Rightarrow> (Inl e, w')
            | (None, w') \<Rightarrow>
                (Inr \<lparr> req_name = name, req_data = dat, req_options = Some c \<rparr>, w')))"
    unfolding resolve_def Let_def split_beta opts_def c_def w1_def steps_def Cons
    by (simp only: list.distinct if_False)
  then show ?thesis
    using seq w1 by (simp split: prod.splits option.splits)
qed

lemma checkSendArgs_warned_once:
  "warned_once n w \<Longrightarrow> warned_once n (snd (checkSendArgs args d w))"
  by (simp add: checkSendArgs_def resolve_warned_once split: send_args.splits)

lemma checkInsertArgs_map_warned_once:
  "warned_once n w \<Longrightarrow> warned_once n (snd (checkInsertArgs_map jobs w))"
proof (induction jobs arbitrary: w)
  case Nil
  then show ?case by simp
next
  case (Cons job jobs)
  define w1 where "w1 = snd (new_object (obj_at w job) w)"
  define w2 where "w2 = set_obj (fst (new_object (obj_at w job) w))
                          (applySingletonKeyConfig (obj_at w1 (fst (new_object (obj_at w job) w)))) w1"
  have "warned_once n w2"
    using Cons.prems by (simp add: w2_def w1_def)
  from Cons.IH [OF this]
  show ?case
    by (simp add: split_beta Let_def w2_def w1_def)
qed

lemma checkInsertArgs_warned_once:
  "warned_once n w \<Longrightarrow> warned_once n (snd (checkInsertArgs jobs w))"
  using checkInsertArgs_map_warned_once [of n w jobs]
  by (simp add: checkInsertArgs_def split_beta)

lemma applyArchiveConfig_warned_once:
  "warned_once n w \<Longrightarrow> warned_once n (snd (applyArchiveConfig config w))"
  by (simp add: applyArchiveConfig_def Let_def warned_once_emit)

lemma applyArchiveFailedConfig_warned_once:
  "warned_once n w \<Longrightarrow> warned_once n (snd (applyArchiveFailedConfig config w))"
  by (simp add: applyArchiveFailedConfig_def Let_def warned_once_emit)

lemma run_call_warned_once:
  "warned_once n w \<Longrightarrow> warned_once (n + (if is_warnClockSkew c then 1 else 0)) (run_call c w)"
  by (cases c)
     (simp_all add: checkSendArgs_warned_once checkInsertArgs_warned_once
        applyExpirationConfig_warned_once applyArchiveConfig_warned_once
        applyArchiveFailedConfig_warned_once warned_once_clock_skew)

lemma run_calls_warned_once:
  "warned_once n w \<Longrightarrow> warned_once (n + length (filter is_warnClockSkew cs)) (run_calls cs w)"
proof (induction cs arbitrary: n w)
  case Nil
  then show ?case by simp
next
  case (Cons c cs)
  from Cons.IH [OF run_call_warned_once [OF Cons.prems, of c]]
  show ?case by (auto simp add: add.assoc)
qed

lemma warned_once_initial: "warned_once 0 initial_world"
  by (simp add: warned_once_def initial_world_def times_emitted_def)

lemma checkInsertArgs_map_heap_only:
  "heap w = heap w' \<Longrightarrow>
   fst (checkInsertArgs_map jobs w) = fst (checkInsertArgs_map jobs w') \<and>
   heap (snd (checkInsertArgs_map jobs w)) = heap (snd (checkInsertArgs_map jobs w'))"
proof (induction jobs arbitrary: w w')
  case Nil
  then show ?case by simp
next
  case (Cons job jobs)
  define u where "u = set_obj (fst (new_object (obj_at w job) w))
     (applySingletonKeyConfig (obj_at (snd (new_object (obj_at w job) w)) (fst (new_object (obj_at w job) w))))
     (snd (new_object (obj_at w job) w))"
  define u' where "u' = set_obj (fst (new_object (obj_at w' job) w'))
     (applySingletonKeyConfig (obj_at (snd (new_object (obj_at w' job) w')) (fst (new_object (obj_at w' job) w'))))
     (snd (new_object (obj_at w' job) w'))"
  have "heap u = heap u'"
    using Cons.prems by (simp add: u_def u'_def new_object_def obj_at_def)
  from Cons.IH [OF this] Cons.prems
  show ?case
    by (simp add: split_beta Let_def u_def u'_def new_object_def)
qed

text \<open>
  C9.  In any sequence of calls made by a process from its start, the warning for
  \<^verbatim>\<open>expireIn\<close> and the warning that cron is disabled are each emitted at most once,
  and the clock-skew warning is emitted once for every call of \<^verbatim>\<open>warnClockSkew\<close>.
  What a call returns or throws does not depend on which warnings have been given:
  it is the same for every value of the \<^verbatim>\<open>warned\<close> flags and of the warning sink.
\<close>

theorem C9_each_warning_once:
  "times_emitted EXPIRE_IN_REMOVED (run_calls cs initial_world) \<le> 1 \<and>
   times_emitted CRON_DISABLED (run_calls cs initial_world) \<le> 1 \<and>
   times_emitted CLOCK_SKEW (run_calls cs initial_world) = length (filter is_warnClockSkew cs) \<and>
   fst (checkSendArgs args d (w\<lparr> warned := x, emitted := y \<rparr>)) = fst (checkSendArgs args d w) \<and>
   fst (checkInsertArgs jobs (w\<lparr> warned := x, emitted := y \<rparr>)) = fst (checkInsertArgs jobs w) \<and>
   fst (applyExpirationConfig config dd (w\<lparr> warned := x, emitted := y \<rparr>)) =
     fst (applyExpirationConfig config dd w) \<and>
   fst (applyArchiveConfig ac (w\<lparr> warned := x, emitted := y \<rparr>)) = fst (applyArchiveConfig ac w) \<and>
   fst (applyArchiveFailedConfig ac (w\<lparr> warned := x, emitted := y \<rparr>)) =
     fst (applyArchiveFailedConfig ac w)"
proof -
  have "warned_once (length (filter is_warnClockSkew cs)) (run_calls cs initial_world)"
    using run_calls_warned_once [OF warned_once_initial, of cs] by simp
  then have a: "times_emitted EXPIRE_IN_REMOVED (run_calls cs initial_world) \<le> 1"
    and b: "times_emitted CRON_DISABLED (run_calls cs initial_world) \<le> 1"
    and c: "times_emitted CLOCK_SKEW (run_calls cs initial_world) = length (filter is_warnClockSkew cs)"
    by (auto simp add: warned_once_def split: if_splits
        dest: spec [of _ EXPIRE_IN_REMOVED] spec [of _ CRON_DISABLED])
  have "options_read args (w\<lparr> warned := x, emitted := y \<rparr>) = options_read args w"
    by (simp add: options_read_def obj_at_def split: send_args.splits option.splits)
  then have e: "fst (checkSendArgs args d (w\<lparr> warned := x, emitted := y \<rparr>)) = fst (checkSendArgs args d w)"
    by (simp add: fst_checkSendArgs cong: option.case_cong sum.case_cong)
  have f: "fst (checkInsertArgs jobs (w\<lparr> warned := x, emitted := y \<rparr>)) = fst (checkInsertArgs jobs w)"
    using checkInsertArgs_map_heap_only [of "w\<lparr> warned := x, emitted := y \<rparr>" w jobs]
    by (simp add: checkInsertArgs_def split_beta)
  have g: "fst (applyExpirationConfig config dd (w\<lparr> warned := x, emitted := y \<rparr>)) =
     fst (applyExpirationConfig config dd w)"
    by (simp add: applyExpirationConfig_def Let_def)
  have h: "fst (applyArchiveConfig ac (w\<lparr> warned := x, emitted := y \<rparr>)) = fst (applyArchiveConfig ac w)"
    by (simp add: applyArchiveConfig_def Let_def)
  have i: "fst (applyArchiveFailedConfig ac (w\<lparr> warned := x, emitted := y \<rparr>)) =
     fst (applyArchiveFailedConfig ac w)"
    by (simp add: applyArchiveFailedConfig_def Let_def)
  from a b c e f g h i show ?thesis by blast
qed

theorem C9_each_warning_once_witness:
  "times_emitted EXPIRE_IN_REMOVED
     (run_calls [Call_applyExpirationConfig (empty_options\<lparr> expireIn := Val ''1 hour'' \<rparr>) None,
                 Call_warnClockSkew ''a'',
                 Call_applyExpirationConfig (empty_options\<lparr> expireIn := Val ''1 hour'' \<rparr>) None,
                 Call_warnClockSkew ''b''] initial_world) = 1 \<and>
   times_emitted CLOCK_SKEW
     (run_calls [Call_applyExpirationConfig (empty_options\<lparr> expireIn := Val ''1 hour'' \<rparr>) None,
                 Call_warnClockSkew ''a'',
                 Call_applyExpirationConfig (empty_options\<lparr> expireIn := Val ''1 hour'' \<rparr>) None,
                 Call_warnClockSkew ''b''] initial_world) = 2"
proof -
  let ?cs = "[Call_applyExpirationConfig (empty_options\<lparr> expireIn := Val ''1 hour'' \<rparr>) None,
                 Call_warnClockSkew ''a'',
                 Call_applyExpirationConfig (empty_options\<lparr> expireIn := Val ''1 hour'' \<rparr>) None,
                 Call_warnClockSkew ''b'']"
  have "1 \<le> times_emitted EXPIRE_IN_REMOVED (run_calls ?cs initial_world)"
    by code_simp
  with C9_each_warning_once [of ?cs]
  show ?thesis by simp
qed

section \<open>Verification of the enqueue engine\<close>

lemma createJob_eq:
  "createJob server now uid name dat optref w table =
     (case createJob_row server now uid name dat optref w of
        Inl e \<Rightarrow> (Inl e, table)
      | Inr r \<Rightarrow>
          if list_ex (\<lambda>x. same_window x r) table then (Inr [], table)
          else (Inr [uid], table @ [r]))"
  by (auto simp add: createJob_def createJob_row_def insert_row_def Let_def select_row_def
      createJob_values_def
      split: sum.splits option.splits)

lemma select_row_fields:
  assumes "select_row server now v = Inr r"
  shows "j_id r = v_id v" and "j_name r = v_name v" and "j_singletonKey r = v_singletonKey v"
    and "singletonOn_of (sql_int_null (v_singletonSeconds v)) (v_singletonOffset v) now =
           Inr (j_singletonOn r)"
  using assms
  by (auto simp add: select_row_def split: option.splits sum.splits)

lemma createJob_row_fields:
  assumes "createJob_row server now uid name dat (Some a) w = Inr r"
  shows "j_id r = uid" and "j_name r = name"
    and "j_singletonKey r = (case singletonKey (obj_at w a) of Val k \<Rightarrow> Some k | _ \<Rightarrow> None)"
    and "singletonOn_of (sql_int_null (get (singletonSeconds (obj_at w a))))
           (offset_of (obj_at w a)) now = Inr (j_singletonOn r)"
  using select_row_fields [OF assms [unfolded createJob_row_def]]
  by (simp_all add: createJob_values_def Let_def offset_of_def)

lemma same_window_sym: "same_window a b \<Longrightarrow> same_window b a"
  unfolding same_window_def by metis

lemma same_window_refl: "same_window a b \<Longrightarrow> same_window a a"
  unfolding same_window_def by metis

lemma count_after_insert:
  assumes "\<not> list_ex (\<lambda>x. same_window x r) table" and "same_window r r"
  shows "length (filter (\<lambda>x. same_window x r) (table @ [r])) = 1"
proof -
  from assms(1) have "filter (\<lambda>x. same_window x r) table = []"
    by (simp add: list_ex_iff filter_empty_conv)
  with assms(2) show ?thesis by simp
qed

text \<open>
  C2.  \<^verbatim>\<open>createJob\<close> returns the generated identifier exactly when the row was
  inserted, and otherwise leaves the table as it was.  When the table already holds a
  row with the same name, the same singleton key (not null) and the same
  \<^verbatim>\<open>singletonOn\<close> (not null), the insert is suppressed: no identifier, no error, no
  change.  Two calls with the same name and key and the same \<^verbatim>\<open>singletonSeconds\<close>,
  whose times the statement puts into the same bucket, made on a table with no row
  for that window, and whose statements the server can evaluate: the first returns
  its identifier, the second returns none, and the table holds exactly one row for
  the window.
\<close>

theorem C2_identifier_returned_iff_inserted:
  assumes "r = createJob server now uid name dat optref w table"
    and "r' = createJob server now' uid' name dat' optref' w' (snd r)"
  shows "((fst r = Inr [uid]) = (\<exists>row. snd r = table @ [row])) \<and>
         (fst r \<noteq> Inr [uid] \<longrightarrow> snd r = table) \<and>
         (createJob_row server now uid name dat optref w = Inr row \<and>
          list_ex (\<lambda>x. same_window x row) table \<longrightarrow> r = (Inr [], table)) \<and>
         (optref = Some a \<and> optref' = Some a' \<and>
          createJob_row server now uid name dat optref w = Inr row \<and>
          createJob_row server now' uid' name dat' optref' w' = Inr row' \<and>
          singletonKey (obj_at w a) = Val key \<and> singletonKey (obj_at w' a') = Val key \<and>
          singletonSeconds (obj_at w a) = Val (Some s) \<and>
          singletonSeconds (obj_at w' a') = Val (Some s) \<and>
          offset_of (obj_at w' a') = offset_of (obj_at w a) \<and>
          \<lfloor>(now' + of_int (offset_of (obj_at w a))) / of_int s\<rfloor> =
            \<lfloor>(now + of_int (offset_of (obj_at w a))) / of_int s\<rfloor> \<and>
          \<not> list_ex (\<lambda>x. same_window x row) table \<longrightarrow>
            r = (Inr [uid], table @ [row]) \<and> r' = (Inr [], table @ [row]) \<and>
            length (filter (\<lambda>x. same_window x row) (snd r')) = 1)"
proof (intro conjI impI)
  show "(fst r = Inr [uid]) = (\<exists>row. snd r = table @ [row])"
    by (simp add: assms(1) createJob_eq split: sum.splits)
next
  assume "fst r \<noteq> Inr [uid]"
  then show "snd r = table"
    by (auto simp add: assms(1) createJob_eq split: sum.splits if_splits)
next
  assume "createJob_row server now uid name dat optref w = Inr row \<and>
          list_ex (\<lambda>x. same_window x row) table"
  then show "r = (Inr [], table)"
    by (simp add: assms(1) createJob_eq)
next
  assume h: "optref = Some a \<and> optref' = Some a' \<and>
          createJob_row server now uid name dat optref w = Inr row \<and>
          createJob_row server now' uid' name dat' optref' w' = Inr row' \<and>
          singletonKey (obj_at w a) = Val key \<and> singletonKey (obj_at w' a') = Val key \<and>
          singletonSeconds (obj_at w a) = Val (Some s) \<and>
          singletonSeconds (obj_at w' a') = Val (Some s) \<and>
          offset_of (obj_at w' a') = offset_of (obj_at w a) \<and>
          \<lfloor>(now' + of_int (offset_of (obj_at w a))) / of_int s\<rfloor> =
            \<lfloor>(now + of_int (offset_of (obj_at w a))) / of_int s\<rfloor> \<and>
          \<not> list_ex (\<lambda>x. same_window x row) table"
  then have row: "createJob_row server now uid name dat (Some a) w = Inr row"
    and row': "createJob_row server now' uid' name dat' (Some a') w' = Inr row'"
    and fresh: "\<not> list_ex (\<lambda>x. same_window x row) table"
    and refs: "optref = Some a" "optref' = Some a'"
    by auto
  have on: "j_singletonOn row = Some (s * \<lfloor>(now + of_int (offset_of (obj_at w a))) / of_int s\<rfloor>)"
    using createJob_row_fields(4) [OF row] h
    by (simp add: singletonOn_of_def sql_int_null_def get_def split: if_splits)
  have on': "j_singletonOn row' = Some (s * \<lfloor>(now + of_int (offset_of (obj_at w a))) / of_int s\<rfloor>)"
    using createJob_row_fields(4) [OF row'] h
    by (simp add: singletonOn_of_def sql_int_null_def get_def split: if_splits)
  have same: "same_window row row'"
    using createJob_row_fields(2,3) [OF row] createJob_row_fields(2,3) [OF row'] on on' h
    by (simp add: same_window_def)
  have first: "r = (Inr [uid], table @ [row])"
    using row fresh by (simp add: assms(1) refs createJob_eq)
  have second: "r' = (Inr [], table @ [row])"
    using row' same by (simp add: assms(2) first refs createJob_eq)
  have "length (filter (\<lambda>x. same_window x row) (table @ [row])) = 1"
    using count_after_insert [OF fresh same_window_refl [OF same]] .
  with first second
  show "r = (Inr [uid], table @ [row])" and "r' = (Inr [], table @ [row])"
    and "length (filter (\<lambda>x. same_window x row) (snd r')) = 1"
    by simp_all
qed

theorem C2_identifier_returned_iff_inserted_witness:
  "fst (createJob example_pg 1005 ''id1'' ''q'' DataUndefined (Some 0)
          (world_with [empty_options\<lparr> singletonKey := Val ''k'', singletonSeconds := Val (Some 600) \<rparr>]) []) =
     Inr [''id1''] \<and>
   fst (createJob example_pg 1100 ''id2'' ''q'' DataUndefined (Some 0)
          (world_with [empty_options\<lparr> singletonKey := Val ''k'', singletonSeconds := Val (Some 600) \<rparr>])
          (snd (createJob example_pg 1005 ''id1'' ''q'' DataUndefined (Some 0)
                  (world_with [empty_options\<lparr> singletonKey := Val ''k'', singletonSeconds := Val (Some 600) \<rparr>]) []))) =
     Inr [] \<and>
   length (snd (createJob example_pg 1100 ''id2'' ''q'' DataUndefined (Some 0)
          (world_with [empty_options\<lparr> singletonKey := Val ''k'', singletonSeconds := Val (Some 600) \<rparr>])
          (snd (createJob example_pg 1005 ''id1'' ''q'' DataUndefined (Some 0)
                  (world_with [empty_options\<lparr> singletonKey := Val ''k'', singletonSeconds := Val (Some 600) \<rparr>]) [])))) = 1"
proof -
  let ?w = "world_with [empty_options\<lparr> singletonKey := Val ''k'', singletonSeconds := Val (Some 600) \<rparr>]"
  let ?r = "createJob example_pg 1005 ''id1'' ''q'' DataUndefined (Some 0) ?w []"
  let ?r' = "createJob example_pg 1100 ''id2'' ''q'' DataUndefined (Some 0) ?w (snd ?r)"
  have "\<not> isl (createJob_row example_pg 1005 ''id1'' ''q'' DataUndefined (Some 0) ?w)"
    and "\<not> isl (createJob_row example_pg 1100 ''id2'' ''q'' DataUndefined (Some 0) ?w)"
    by code_simp+
  then obtain row row'
    where row: "createJob_row example_pg 1005 ''id1'' ''q'' DataUndefined (Some 0) ?w = Inr row"
      and row': "createJob_row example_pg 1100 ''id2'' ''q'' DataUndefined (Some 0) ?w = Inr row'"
    by (metis isl_def sum.exhaust)
  have k: "singletonKey (obj_at ?w 0) = Val ''k''"
    and s: "singletonSeconds (obj_at ?w 0) = Val (Some 600)"
    and b: "\<lfloor>((1100::rat) + of_int (offset_of (obj_at ?w 0))) / of_int 600\<rfloor> =
            \<lfloor>((1005::rat) + of_int (offset_of (obj_at ?w 0))) / of_int 600\<rfloor>"
    by code_simp+
  have fresh: "\<not> list_ex (\<lambda>x. same_window x row) []"
    by simp
  note scenario = conjunct2 [OF conjunct2 [OF conjunct2 [OF C2_identifier_returned_iff_inserted
         [where r = ?r and r' = ?r' and a = 0 and a' = 0 and row = row and row' = row'
            and key = "''k''" and s = 600, OF refl refl]]]]
  from scenario row row' k s b fresh
  have both: "?r = (Inr [''id1''], [] @ [row]) \<and> ?r' = (Inr [], [] @ [row])"
    by blast
  have r1: "?r = (Inr [''id1''], [row])"
    using conjunct1 [OF both] by (simp only: append_Nil)
  have r2: "?r' = (Inr [], [row])"
    using conjunct2 [OF both] by (simp only: append_Nil)
  show ?thesis
    unfolding r2 unfolding r1 by simp
qed

subsection \<open>The throttle and debounce helpers\<close>

lemma entry_error_tuple [simp]:
  "entry_error (ArgsTuple name dat (Some c)) = entry_error (ArgsTuple name dat None)"
  by (simp add: entry_error_def args_name_def)

lemma checkSendArgs_request:
  assumes "checkSendArgs args d w = (Inr result, w')"
  shows "req_name result = args_name args" and "req_data result = args_data args"
    and "req_options result = Some (length (heap w))"
    and "resolve_content (options_read args w) d = Inr (obj_at w' (length (heap w)))"
    and "entry_error args = None"
proof -
  from assms have f: "fst (checkSendArgs args d w) = Inr result"
    by simp
  then show "req_name result = args_name args" and "req_data result = args_data args"
    and o: "req_options result = Some (length (heap w))" and "entry_error args = None"
    by (auto simp add: fst_checkSendArgs split: option.splits sum.splits)
  from assms o have "resolved (checkSendArgs args d w) = Some (obj_at w' (length (heap w)))"
    by (simp add: resolved_def)
  then show "resolve_content (options_read args w) d = Inr (obj_at w' (length (heap w)))"
    by (simp add: resolved_Some)
qed

lemma checkSendArgs_error:
  assumes "checkSendArgs args d w = (Inl e, w')"
  shows "(case entry_error args of Some e' \<Rightarrow> e' = e
          | None \<Rightarrow> resolve_content (options_read args w) d = Inl e)"
proof -
  from assms have "fst (checkSendArgs args d w) = Inl e"
    by simp
  then show ?thesis
    by (auto simp add: fst_checkSendArgs split: option.splits sum.splits)
qed

lemma set_obj_new:
  "set_obj (length (heap w)) v (w\<lparr> heap := heap w @ [u] \<rparr>) = w\<lparr> heap := heap w @ [v] \<rparr>"
  by (simp add: set_obj_def)

lemma obj_at_new: "obj_at (w\<lparr> heap := heap w @ [u] \<rparr>) (length (heap w)) = u"
  by (simp add: obj_at_def)

lemma helper_prepare:
  fixes w :: world
  defines "c \<equiv> length (heap w)"
  shows "(let (c', w') = new_object base w;
              w' = set_obj c' ((obj_at w' c')\<lparr> singletonSeconds := Val (Some seconds) \<rparr>) w';
              w' = set_obj c' ((obj_at w' c')\<lparr> singletonNextSlot := Val nextSlot \<rparr>) w';
              w' = set_obj c' ((obj_at w' c')\<lparr> singletonKey := Val key \<rparr>) w'
          in body c' w') =
         body c (w\<lparr> heap := heap w @ [prepared base seconds nextSlot key] \<rparr>)"
proof -
  define w0 where "w0 = w\<lparr> heap := heap w @ [base] \<rparr>"
  define w1 where "w1 = w\<lparr> heap := heap w @ [base\<lparr> singletonSeconds := Val (Some seconds) \<rparr>] \<rparr>"
  define w2 where "w2 = w\<lparr> heap := heap w @ [base\<lparr> singletonSeconds := Val (Some seconds),
                          singletonNextSlot := Val nextSlot \<rparr>] \<rparr>"
  define w3 where "w3 = w\<lparr> heap := heap w @ [prepared base seconds nextSlot key] \<rparr>"
  have n: "new_object base w = (c, w0)"
    by (simp add: new_object_def c_def w0_def)
  have s1: "set_obj c ((obj_at w0 c)\<lparr> singletonSeconds := Val (Some seconds) \<rparr>) w0 = w1"
    by (simp add: set_obj_def obj_at_def c_def w0_def w1_def)
  have s2: "set_obj c ((obj_at w1 c)\<lparr> singletonNextSlot := Val nextSlot \<rparr>) w1 = w2"
    by (simp add: set_obj_def obj_at_def c_def w1_def w2_def)
  have s3: "set_obj c ((obj_at w2 c)\<lparr> singletonKey := Val key \<rparr>) w2 = w3"
    by (simp add: set_obj_def obj_at_def c_def w2_def w3_def prepared_def)
  show ?thesis
    unfolding n w3_def [symmetric]
    by (simp only: Let_def case_prod_conv s1 s2 s3)
qed

lemma windowed_call:
  fixes w :: world
  assumes h: "h = (case checkSendArgs (ArgsTuple name dat (Some (length (heap w)))) config
                       (w\<lparr> heap := heap w @ [prepared base seconds nextSlot key] \<rparr>) of
                  (Inl e, w') \<Rightarrow> (Inl e, w', table)
                | (Inr result, w') \<Rightarrow>
                    (let (r, table') = createJob server now uid (req_name result) (req_data result)
                                 (req_options result) w' table
                     in (r, w', table')))"
  shows "(fst h, snd (snd h)) =
           windowed_outcome server now uid config name dat (prepared base seconds nextSlot key) table"
proof -
  define c where "c = length (heap w)"
  define w3 where "w3 = w\<lparr> heap := heap w @ [prepared base seconds nextSlot key] \<rparr>"
  have read: "options_read (ArgsTuple name dat (Some c)) w3 = prepared base seconds nextSlot key"
    by (simp add: options_read_def obj_at_def w3_def c_def)
  have len: "length (heap w3) = Suc c"
    by (simp add: w3_def c_def)
  obtain res w' where p: "checkSendArgs (ArgsTuple name dat (Some c)) config w3 = (res, w')"
    by (cases "checkSendArgs (ArgsTuple name dat (Some c)) config w3")
  note h' = h [folded c_def w3_def, unfolded p]
  show ?thesis
  proof (cases res)
    case (Inl e)
    then have out: "h = (Inl e, w', table)"
      using h' by simp
    from checkSendArgs_error [OF p [unfolded Inl]] read
    show ?thesis
      unfolding out windowed_outcome_def
      by (simp split: option.splits)
  next
    case (Inr result)
    note facts = checkSendArgs_request [OF p [unfolded Inr], unfolded read len]
    have out: "h = (fst (createJob server now uid name dat (Some (Suc c)) w' table), w',
                    snd (createJob server now uid name dat (Some (Suc c)) w' table))"
      using h' Inr facts(1-3) by (simp add: split_beta args_name_def args_data_def)
    from facts(4,5)
    show ?thesis
      unfolding out windowed_outcome_def
      by (simp add: createJob_eq createJob_row_def split: sum.splits)
  qed
qed

lemma sendThrottled_outcome:
  "(fst (sendThrottled server now uid config name dat optref seconds key w table),
    snd (snd (sendThrottled server now uid config name dat optref seconds key w table))) =
   windowed_outcome server now uid config name dat
     (prepared (case optref of Some a \<Rightarrow> obj_at w a | None \<Rightarrow> empty_options) seconds False key) table"
  by (rule windowed_call) (simp only: sendThrottled_def helper_prepare)

lemma sendDebounced_outcome:
  "(fst (sendDebounced server now uid config name dat optref seconds key w table),
    snd (snd (sendDebounced server now uid config name dat optref seconds key w table))) =
   windowed_outcome server now uid config name dat
     (prepared (case optref of Some a \<Rightarrow> obj_at w a | None \<Rightarrow> empty_options) seconds True key) table"
  by (rule windowed_call) (simp only: sendDebounced_def helper_prepare)


lemma asserts_nextSlot [simp]:
  "retry_asserts (c\<lparr> singletonNextSlot := x \<rparr>) = retry_asserts c"
  "expiration_asserts (c\<lparr> singletonNextSlot := x \<rparr>) = expiration_asserts c"
  "retention_asserts (c\<lparr> singletonNextSlot := x \<rparr>) = retention_asserts c"
  "completion_asserts (c\<lparr> singletonNextSlot := x \<rparr>) = completion_asserts c"
  by (simp_all add: retry_asserts_def expiration_asserts_def retention_asserts_def
      completion_asserts_def)

lemma steps_nextSlot [simp]:
  "retry_merge (c\<lparr> singletonNextSlot := x \<rparr>) d = (retry_merge c d)\<lparr> singletonNextSlot := x \<rparr>"
  "retry_corrections (c\<lparr> singletonNextSlot := x \<rparr>) = (retry_corrections c)\<lparr> singletonNextSlot := x \<rparr>"
  "applySingletonKeyConfig (c\<lparr> singletonNextSlot := x \<rparr>) =
     (applySingletonKeyConfig c)\<lparr> singletonNextSlot := x \<rparr>"
  "expireIn_of (c\<lparr> singletonNextSlot := x \<rparr>) d = expireIn_of c d"
  "keepUntil_of (c\<lparr> singletonNextSlot := x \<rparr>) d = keepUntil_of c d"
  by (simp_all add: retry_merge_def retry_corrections_def applySingletonKeyConfig_def Let_def
      expireIn_of_def keepUntil_of_def split: option.splits)

lemma retry_merge_nextSlot_priority:
  "retry_merge (c\<lparr> singletonNextSlot := x, priority := p \<rparr>) d =
     (retry_merge (c\<lparr> priority := p \<rparr>) d)\<lparr> singletonNextSlot := x \<rparr>"
  by (simp add: retry_merge_def Let_def split: option.splits)

lemma applySingletonKeyConfig_nextSlot:
  "applySingletonKeyConfig (c\<lparr> singletonNextSlot := x, expireIn := e, keepUntil := k \<rparr>) =
     (applySingletonKeyConfig (c\<lparr> expireIn := e, keepUntil := k \<rparr>))\<lparr> singletonNextSlot := x \<rparr>"
  "applySingletonKeyConfig (c\<lparr> singletonNextSlot := x, expireIn := e, keepUntil := k, onComplete := oc \<rparr>) =
     (applySingletonKeyConfig (c\<lparr> expireIn := e, keepUntil := k, onComplete := oc \<rparr>))\<lparr> singletonNextSlot := x \<rparr>"
  by (simp_all add: applySingletonKeyConfig_def Let_def)

lemma assigned_nextSlot:
  "assigned (c\<lparr> singletonNextSlot := x \<rparr>) d sa = (assigned c d sa)\<lparr> singletonNextSlot := x \<rparr>"
  by (simp add: assigned_def Let_def retry_merge_nextSlot_priority applySingletonKeyConfig_nextSlot)

lemma resolve_content_nextSlot:
  "resolve_content (c\<lparr> singletonNextSlot := x \<rparr>) d =
     (case resolve_content c d of
        Inl e \<Rightarrow> Inl e
      | Inr v \<Rightarrow> Inr (v\<lparr> singletonNextSlot := x \<rparr>))"
  by (simp add: resolve_content_flat assigned_nextSlot split: option.splits sum.splits)

lemma createJob_values_nextSlot:
  "createJob_values uid name dat (Some (v\<lparr> singletonNextSlot := x \<rparr>)) =
   createJob_values uid name dat (Some v)"
  by (simp add: createJob_values_def)

lemma prepared_nextSlot:
  "prepared base seconds b key = (prepared base seconds False key)\<lparr> singletonNextSlot := Val b \<rparr>"
  by (simp add: prepared_def)

lemma windowed_outcome_nextSlot:
  "windowed_outcome server now uid config name dat (prepared base seconds b key) table =
   windowed_outcome server now uid config name dat (prepared base seconds False key) table"
  unfolding windowed_outcome_def prepared_nextSlot [of base seconds b key] resolve_content_nextSlot
  by (simp add: createJob_values_nextSlot split: option.splits sum.splits)

lemma assigned_fields:
  "singletonOffset (assigned opts d sa) = singletonOffset opts"
  "singletonKey opts = Val k \<Longrightarrow> \<exists>k'. singletonKey (assigned opts d sa) = Val k'"
  by (simp_all add: assigned_def Let_def applySingletonKeyConfig_def)

lemma resolve_content_assigned:
  "resolve_content opts d = Inr v \<Longrightarrow> \<exists>sa. v = assigned opts d sa"
  by (auto simp add: resolve_content_flat split: if_splits option.splits sum.splits)

lemma prepared_resolved:
  assumes "resolve_content (prepared base seconds b key) config = Inr v"
  shows "singletonSeconds v = singletonSeconds_of (Val (Some seconds))
           (get (singletonMinutes base)) (get (singletonHours base))"
    and "\<exists>k. singletonKey v = Val k"
    and "offset_of v = offset_of base"
proof -
  show "singletonSeconds v = singletonSeconds_of (Val (Some seconds))
           (get (singletonMinutes base)) (get (singletonHours base))"
    using resolve_content_Inr(8) [OF assms] by (simp add: prepared_def get_def)
  from resolve_content_assigned [OF assms] obtain sa
    where v: "v = assigned (prepared base seconds b key) config sa" ..
  have key: "singletonKey (prepared base seconds b key) = Val key"
    by (simp add: prepared_def)
  show "\<exists>k. singletonKey v = Val k"
    unfolding v by (rule assigned_fields(2) [OF key])
  show "offset_of v = offset_of base"
    by (simp add: v assigned_fields offset_of_def prepared_def)
qed

lemma timestamp_of_base:
  "timestamp_of server base t = Inr x \<Longrightarrow> \<exists>y. timestamp_of server base' t = Inr y"
  by (auto simp add: timestamp_of_def split: if_splits option.splits)

lemma createJob_values_id:
  "createJob_values uid' name dat (Some v) =
     (createJob_values uid name dat (Some v))\<lparr> v_id := uid' \<rparr>"
  by (simp add: createJob_values_def Let_def)

lemma select_row_later:
  assumes "select_row server now (createJob_values uid name dat (Some v)) = Inr r"
    and "singletonSeconds v = Val (Some S)"
    and "\<lfloor>(now' + of_int (offset_of v)) / of_int S\<rfloor> = \<lfloor>(now + of_int (offset_of v)) / of_int S\<rfloor>"
  shows "\<exists>r'. select_row server now' (createJob_values uid' name dat (Some v)) = Inr r' \<and>
              j_name r' = j_name r \<and> j_singletonKey r' = j_singletonKey r \<and>
              j_singletonOn r' = j_singletonOn r"
proof -
  let ?vals = "createJob_values uid name dat (Some v)"
  from assms(1) obtain e so sa ku
    where e: "to_interval server (v_expireIn ?vals) = Some e"
      and so: "singletonOn_of (sql_int_null (v_singletonSeconds ?vals)) (v_singletonOffset ?vals) now = Inr so"
      and sa: "timestamp_of server now (sql_text (v_startAfter ?vals)) = Inr sa"
      and ku: "timestamp_of server sa (Some (v_keepUntil ?vals)) = Inr ku"
      and r: "j_name r = v_name ?vals" "j_singletonKey r = v_singletonKey ?vals" "j_singletonOn r = so"
    by (auto simp add: select_row_def split: option.splits sum.splits)
  have secs: "sql_int_null (v_singletonSeconds ?vals) = Some S"
    and off: "v_singletonOffset ?vals = offset_of v"
    using assms(2) by (simp_all add: createJob_values_def Let_def get_def sql_int_null_def offset_of_def)
  from so have S: "S \<noteq> 0" and so_eq: "so = Some (S * \<lfloor>(now + of_int (offset_of v)) / of_int S\<rfloor>)"
    by (auto simp add: secs off singletonOn_of_def split: if_splits)
  have so': "singletonOn_of (sql_int_null (v_singletonSeconds ?vals)) (v_singletonOffset ?vals) now' = Inr so"
    using S by (simp add: secs off singletonOn_of_def so_eq assms(3))
  from timestamp_of_base [OF sa, of now'] obtain sa'
    where sa': "timestamp_of server now' (sql_text (v_startAfter ?vals)) = Inr sa'" ..
  from timestamp_of_base [OF ku, of sa'] obtain ku'
    where ku': "timestamp_of server sa' (Some (v_keepUntil ?vals)) = Inr ku'" ..
  show ?thesis
    using e so' sa' ku' r
    by (simp add: createJob_values_id [of uid' name dat v uid] select_row_def)
qed


lemma createJob_values_key:
  "singletonKey v = Val k \<Longrightarrow> v_singletonKey (createJob_values uid name dat (Some v)) = Some k"
  by (simp add: createJob_values_def Let_def get_def)

lemma windowed_scenario:
  assumes first: "windowed_outcome server now uid config name dat
                    (prepared base seconds False key) table = (Inr [uid], table')"
    and S: "singletonSeconds_of (Val (Some seconds)) (get (singletonMinutes base))
              (get (singletonHours base)) = Val (Some S)"
    and bucket: "\<lfloor>(now' + of_int (offset_of base)) / of_int S\<rfloor> =
                 \<lfloor>(now + of_int (offset_of base)) / of_int S\<rfloor>"
  shows "\<exists>row. table' = table @ [row] \<and> j_id row = uid \<and> j_name row = name \<and>
           j_singletonKey row \<noteq> None \<and>
           j_singletonOn row = Some (S * \<lfloor>(now + of_int (offset_of base)) / of_int S\<rfloor>) \<and>
           length (filter (\<lambda>x. same_window x row) table') = 1 \<and>
           windowed_outcome server now' uid' config name dat
             (prepared base seconds False key) table' = (Inr [], table')"
proof -
  from first obtain v r
    where entry: "entry_error (ArgsTuple name dat None) = None"
      and v: "resolve_content (prepared base seconds False key) config = Inr v"
      and r: "select_row server now (createJob_values uid name dat (Some v)) = Inr r"
      and fresh: "\<not> list_ex (\<lambda>x. same_window x r) table"
      and table': "table' = table @ [r]"
    by (auto simp add: windowed_outcome_def split: option.splits sum.splits if_splits)
  note res = prepared_resolved [OF v]
  from res(2) obtain k where k: "singletonKey v = Val k" ..
  have secs: "singletonSeconds v = Val (Some S)"
    using res(1) S by simp
  have key: "j_singletonKey r = Some k"
    using select_row_fields(3) [OF r] createJob_values_key [OF k] by simp
  have name: "j_name r = name" and ident: "j_id r = uid"
    using select_row_fields(1,2) [OF r] by (simp_all add: createJob_values_def Let_def)
  have "singletonOn_of (Some S) (offset_of base) now = Inr (j_singletonOn r)"
    using select_row_fields(4) [OF r] secs res(3)
    by (simp add: createJob_values_def Let_def get_def sql_int_null_def offset_of_def)
  then have on: "j_singletonOn r = Some (S * \<lfloor>(now + of_int (offset_of base)) / of_int S\<rfloor>)"
    by (auto simp add: singletonOn_of_def split: if_splits)
  have refl: "same_window r r"
    using key on by (simp add: same_window_def)
  have one: "length (filter (\<lambda>x. same_window x r) table') = 1"
    unfolding table' by (rule count_after_insert [OF fresh refl])
  from select_row_later [OF r secs, of now' uid'] bucket res(3) obtain r'
    where r': "select_row server now' (createJob_values uid' name dat (Some v)) = Inr r'"
      and eq: "j_name r' = j_name r" "j_singletonKey r' = j_singletonKey r"
              "j_singletonOn r' = j_singletonOn r"
    by auto
  have "same_window r r'"
    using eq key on by (simp add: same_window_def)
  then have taken: "list_ex (\<lambda>x. same_window x r') table'"
    by (simp add: table' list_ex_iff)
  have second: "windowed_outcome server now' uid' config name dat
                  (prepared base seconds False key) table' = (Inr [], table')"
    using entry v r' taken by (simp add: windowed_outcome_def)
  from ident name key on one second table'
  show ?thesis by simp
qed

lemma windowed_unchanged:
  "fst (windowed_outcome server now uid config name dat opts table) \<noteq> Inr [uid] \<Longrightarrow>
   snd (windowed_outcome server now uid config name dat opts table) = table"
  by (auto simp add: windowed_outcome_def split: option.splits sum.splits)

lemma windowed_archive_failure:
  assumes "\<not> archive_check (get (singletonSeconds opts)) config"
  shows "\<exists>e. windowed_outcome server now uid config name dat opts table = (Inl e, table) \<and>
             is_validation_error e"
proof (cases "entry_error (ArgsTuple name dat None)")
  case (Some e)
  with entry_error_validation [OF Some] show ?thesis
    by (simp add: windowed_outcome_def)
next
  case None
  show ?thesis
  proof (cases "resolve_content opts config")
    case (Inl e)
    with None resolve_content_Inl [OF Inl] show ?thesis
      by (simp add: windowed_outcome_def)
  next
    case (Inr v)
    from resolve_content_Inr(7) [OF Inr] assms show ?thesis
      by simp
  qed
qed

text \<open>
  C7, as amended.  \<^verbatim>\<open>sendThrottled\<close> and \<^verbatim>\<open>sendDebounced\<close>, called with the same name,
  data, base options, seconds and key at the same time on the same table and with the
  same generated identifier, return the same result and leave the same table: the
  value of \<^verbatim>\<open>singletonNextSlot\<close> reaches neither the validation nor the statement.  A
  call that does not return its identifier leaves the table as it was; every call
  with seconds other than zero fails in the validation, and inserts no row, when the
  defaults have no \<^verbatim>\<open>archiveSeconds\<close> other than zero that is at least the seconds
  given.  For base options without a \<^verbatim>\<open>singletonOffset\<close> key the offset is 0: a call
  that returns its identifier has inserted the only row of its name, key and bucket
  \<open>S * floor ((now + 0) / S)\<close>, where \<open>S\<close> is the resolved \<^verbatim>\<open>singletonSeconds\<close>, and a later
  call of either helper with the same name, data, base options, seconds and key, at a
  time of the same bucket, inserts nothing and returns no identifier.
\<close>

theorem C7_throttle_and_debounce_share_the_bucket:
  fixes w w' :: world
  assumes "base = (case optref of Some a \<Rightarrow> obj_at w a | None \<Rightarrow> empty_options)"
    and "t = sendThrottled server now uid config name dat optref seconds key w table"
    and "d = sendDebounced server now uid config name dat optref seconds key w table"
    and "t' = sendThrottled server now' uid' config name dat optref' seconds key w' (snd (snd t))"
    and "d' = sendDebounced server now' uid' config name dat optref' seconds key w' (snd (snd t))"
  shows "fst d = fst t \<and> snd (snd d) = snd (snd t) \<and>
         (fst t \<noteq> Inr [uid] \<longrightarrow> snd (snd t) = table) \<and>
         (seconds \<noteq> 0 \<and>
          \<not> (\<exists>a. d_archiveSeconds config = Val a \<and> a \<noteq> 0 \<and> seconds \<le> a) \<longrightarrow>
            (\<exists>e. fst t = Inl e \<and> is_validation_error e) \<and> snd (snd t) = table) \<and>
         (fst t = Inr [uid] \<and> \<not> has (singletonOffset base) \<and>
          singletonSeconds_of (Val (Some seconds)) (get (singletonMinutes base))
            (get (singletonHours base)) = Val (Some S) \<and>
          (case optref' of Some a \<Rightarrow> obj_at w' a | None \<Rightarrow> empty_options) = base \<and>
          \<lfloor>(now' + 0) / of_int S\<rfloor> = \<lfloor>(now + 0) / of_int S\<rfloor> \<longrightarrow>
            (\<exists>row. snd (snd t) = table @ [row] \<and> j_id row = uid \<and> j_name row = name \<and>
               j_singletonKey row \<noteq> None \<and>
               j_singletonOn row = Some (S * \<lfloor>(now + 0) / of_int S\<rfloor>) \<and>
               length (filter (\<lambda>x. same_window x row) (snd (snd t))) = 1) \<and>
            fst t' = Inr [] \<and> snd (snd t') = snd (snd t) \<and>
            fst d' = Inr [] \<and> snd (snd d') = snd (snd t))"
proof -
  have t: "(fst t, snd (snd t)) =
             windowed_outcome server now uid config name dat (prepared base seconds False key) table"
    unfolding assms(1,2) by (rule sendThrottled_outcome)
  have d: "(fst d, snd (snd d)) =
             windowed_outcome server now uid config name dat (prepared base seconds False key) table"
    unfolding assms(1,3) sendDebounced_outcome by (rule windowed_outcome_nextSlot)
  from t d have same: "fst d = fst t \<and> snd (snd d) = snd (snd t)"
    by (metis prod.inject)
  from t have ft: "fst t = fst (windowed_outcome server now uid config name dat
                                 (prepared base seconds False key) table)"
    and st: "snd (snd t) = snd (windowed_outcome server now uid config name dat
                                 (prepared base seconds False key) table)"
    by (metis fst_conv, metis snd_conv)
  have unchanged: "fst t \<noteq> Inr [uid] \<longrightarrow> snd (snd t) = table"
    unfolding ft st using windowed_unchanged by blast
  have failing: "(\<exists>e. fst t = Inl e \<and> is_validation_error e) \<and> snd (snd t) = table"
    if h: "seconds \<noteq> 0 \<and>
           \<not> (\<exists>a. d_archiveSeconds config = Val a \<and> a \<noteq> 0 \<and> seconds \<le> a)"
  proof -
    have "singletonSeconds (prepared base seconds False key) = Val (Some seconds)"
      by (simp add: prepared_def)
    with h have "\<not> archive_check (get (singletonSeconds (prepared base seconds False key))) config"
      unfolding archive_check_iff by simp
    from windowed_archive_failure [OF this, of server now uid name dat table]
    show ?thesis
      unfolding ft st by auto
  qed
  have later: "(\<exists>row. snd (snd t) = table @ [row] \<and> j_id row = uid \<and> j_name row = name \<and>
               j_singletonKey row \<noteq> None \<and>
               j_singletonOn row = Some (S * \<lfloor>(now + 0) / of_int S\<rfloor>) \<and>
               length (filter (\<lambda>x. same_window x row) (snd (snd t))) = 1) \<and>
            fst t' = Inr [] \<and> snd (snd t') = snd (snd t) \<and>
            fst d' = Inr [] \<and> snd (snd d') = snd (snd t)"
    if h: "fst t = Inr [uid] \<and> \<not> has (singletonOffset base) \<and>
          singletonSeconds_of (Val (Some seconds)) (get (singletonMinutes base))
            (get (singletonHours base)) = Val (Some S) \<and>
          (case optref' of Some a \<Rightarrow> obj_at w' a | None \<Rightarrow> empty_options) = base \<and>
          \<lfloor>(now' + 0) / of_int S\<rfloor> = \<lfloor>(now + 0) / of_int S\<rfloor>"
  proof -
    from h have base': "(case optref' of Some a \<Rightarrow> obj_at w' a | None \<Rightarrow> empty_options) = base"
      by simp
    from h have off: "offset_of base = 0"
      by (simp add: offset_of_def)
    from t h have first: "windowed_outcome server now uid config name dat
                            (prepared base seconds False key) table = (Inr [uid], snd (snd t))"
      by simp
    from h have S: "singletonSeconds_of (Val (Some seconds)) (get (singletonMinutes base))
            (get (singletonHours base)) = Val (Some S)"
      by simp
    from h have bucket: "\<lfloor>(now' + of_int (offset_of base)) / of_int S\<rfloor> =
            \<lfloor>(now + of_int (offset_of base)) / of_int S\<rfloor>"
      by (simp add: off)
    note scenario = windowed_scenario [OF first S bucket, of uid', unfolded off]
    have t': "(fst t', snd (snd t')) =
                windowed_outcome server now' uid' config name dat
                  (prepared base seconds False key) (snd (snd t))"
      unfolding assms(4) sendThrottled_outcome base' ..
    have d': "(fst d', snd (snd d')) =
                windowed_outcome server now' uid' config name dat
                  (prepared base seconds False key) (snd (snd t))"
      unfolding assms(5) sendDebounced_outcome base' by (rule windowed_outcome_nextSlot)
    from scenario t' d' show ?thesis
      by auto
  qed
  from same unchanged failing later show ?thesis
    by blast
qed

theorem C7_throttle_and_debounce_share_the_bucket_witness:
  "fst (sendThrottled example_pg 1005 ''id1'' (empty_defaults\<lparr> d_archiveSeconds := Val 3600 \<rparr>)
          ''q'' DataUndefined None 10 ''k'' (world_with []) []) = Inr [''id1''] \<and>
   fst (sendDebounced example_pg 1100 ''id2'' (empty_defaults\<lparr> d_archiveSeconds := Val 3600 \<rparr>)
          ''q'' DataUndefined None 10 ''k'' (world_with [])
          (snd (snd (sendThrottled example_pg 1005 ''id1''
             (empty_defaults\<lparr> d_archiveSeconds := Val 3600 \<rparr>)
             ''q'' DataUndefined None 10 ''k'' (world_with []) [])))) = Inr [] \<and>
   length (snd (snd (sendDebounced example_pg 1100 ''id2''
          (empty_defaults\<lparr> d_archiveSeconds := Val 3600 \<rparr>)
          ''q'' DataUndefined None 10 ''k'' (world_with [])
          (snd (snd (sendThrottled example_pg 1005 ''id1''
             (empty_defaults\<lparr> d_archiveSeconds := Val 3600 \<rparr>)
             ''q'' DataUndefined None 10 ''k'' (world_with []) [])))))) = 1"
proof -
  let ?config = "empty_defaults\<lparr> d_archiveSeconds := Val 3600 \<rparr>"
  let ?t = "sendThrottled example_pg 1005 ''id1'' ?config ''q'' DataUndefined None 10 ''k''
              (world_with []) []"
  let ?d' = "sendDebounced example_pg 1100 ''id2'' ?config ''q'' DataUndefined None 10 ''k''
              (world_with []) (snd (snd ?t))"
  have first: "fst ?t = Inr [''id1'']"
    by code_simp
  have no_key: "\<not> has (singletonOffset empty_options)"
    by code_simp
  have S: "singletonSeconds_of (Val (Some 10)) (get (singletonMinutes empty_options))
             (get (singletonHours empty_options)) = Val (Some 600)"
    by code_simp
  have bucket: "\<lfloor>((1100::rat) + 0) / of_int 600\<rfloor> = \<lfloor>((1005::rat) + 0) / of_int 600\<rfloor>"
    by code_simp
  have base: "(case None :: addr option of Some a \<Rightarrow> obj_at (world_with []) a
               | None \<Rightarrow> empty_options) = empty_options"
    by simp
  note scenario = conjunct2 [OF conjunct2 [OF conjunct2 [OF conjunct2
        [OF C7_throttle_and_debounce_share_the_bucket
         [where base = empty_options and optref = None and w = "world_with []" and t = ?t
            and d' = ?d' and optref' = None and w' = "world_with []" and S = 600
            and uid = "''id1''" and name = "''q''",
          OF base [symmetric] refl refl refl refl]]]]]
  from scenario first no_key S bucket base
  obtain row where row: "snd (snd ?t) = [] @ [row]"
    and d': "fst ?d' = Inr []" "snd (snd ?d') = snd (snd ?t)"
    by blast
  from first d' row show ?thesis
    by simp
qed

text \<open>
  C7 as claimed has each helper insert one row per window.  With a configuration that
  has no \<^verbatim>\<open>archiveSeconds\<close>, as \<^verbatim>\<open>{ schema: "pgboss" }\<close>, either helper throws at the
  assertion of lines 148 to 152 and no row is inserted.
\<close>

theorem C7_no_archive_interval_no_row:
  "fst (sendThrottled example_pg 1005 ''id1'' empty_defaults ''q'' DataUndefined None 10 ''k''
          (world_with []) []) =
     Inl (AssertionError ''throttling interval 10s cannot exceed archive interval undefineds'') \<and>
   snd (snd (sendThrottled example_pg 1005 ''id1'' empty_defaults ''q'' DataUndefined None 10 ''k''
          (world_with []) [])) = [] \<and>
   fst (sendDebounced example_pg 1005 ''id1'' empty_defaults ''q'' DataUndefined None 10 ''k''
          (world_with []) []) =
     Inl (AssertionError ''throttling interval 10s cannot exceed archive interval undefineds'') \<and>
   snd (snd (sendDebounced example_pg 1005 ''id1'' empty_defaults ''q'' DataUndefined None 10 ''k''
          (world_with []) [])) = []"
  by code_simp

end
